theory Spec2Isabelle
  imports Complex_Main "HOL-Library.Sublist"
begin

section \<open>Trade modes and mode detection (utils/trade\_mode.py)\<close>

text \<open>
  The three operating modes, the values of the source's
  \<^verbatim>\<open>Literal["LIVE", "SIM", "DEBUG"]\<close>.
\<close>

datatype mode = LIVE | SIM | DEBUG

text \<open>
  Python strings are modelled as lists of characters whose code point is below 256.
  \<^verbatim>\<open>str.strip()\<close> removes leading and trailing characters for which
  \<^verbatim>\<open>str.isspace()\<close> holds; below 256 these are the code points
  9 to 13, 28 to 32, 133 and 160.
\<close>

definition isspace :: "char \<Rightarrow> bool" where
  "isspace c = (c \<in> {CHR 0x09, CHR 0x0A, CHR 0x0B, CHR 0x0C, CHR 0x0D,
                      CHR 0x1C, CHR 0x1D, CHR 0x1E, CHR 0x1F, CHR 0x20,
                      CHR 0x85, CHR 0xA0})"

definition strip :: "string \<Rightarrow> string" where
  "strip s = rev (dropWhile isspace (rev (dropWhile isspace s)))"

definition startswith :: "string \<Rightarrow> string \<Rightarrow> bool" where
  "startswith s p = (take (length p) s = p)"

text \<open>
  \<^verbatim>\<open>detect_mode_from_account(account)\<close>. The configured LIVE account
  (\<^verbatim>\<open>config.settings.LIVE_ACCOUNT\<close>, read through
  \<^verbatim>\<open>_get_live_account\<close>, which turns a missing value into the empty
  string) is the first parameter.
\<close>

definition detect_mode_from_account :: "string \<Rightarrow> string \<Rightarrow> mode" where
  "detect_mode_from_account live_account account =
     (if account = [] then DEBUG
      else let account' = strip account in
        if account' = [] then DEBUG
        else if live_account \<noteq> [] \<and> account' = live_account then LIVE
        else if startswith account' ''Sim'' then SIM
        else DEBUG)"

text \<open>
  \<^verbatim>\<open>should_switch_mode(account, qty=None, require_active_position=True)\<close>:
  the eligibility check. Orders pass \<open>None\<close> for the quantity.
\<close>

definition should_switch_mode :: "string \<Rightarrow> int option \<Rightarrow> bool \<Rightarrow> bool" where
  "should_switch_mode account qty require_active_position =
     (if account = [] then False
      else if strip account = [] then False
      else (case qty of
              Some q \<Rightarrow> if require_active_position \<and> q = 0 then False else True
            | None \<Rightarrow> True))"

subsection \<open>The debounce queue\<close>

text \<open>
  A mode candidate is the tuple \<^verbatim>\<open>(timestamp_ms, mode, account)\<close>. The
  module-level queue \<^verbatim>\<open>_mode_candidates = deque(maxlen=10)\<close> is passed
  in and returned; the clock reading \<^verbatim>\<open>time.time() * 1000\<close> is the
  parameter \<open>now_ms\<close>. Timestamps are modelled as real numbers.
\<close>

type_synonym candidate = "real \<times> mode \<times> string"

definition DEBOUNCE_WINDOW_MS :: real where
  "DEBOUNCE_WINDOW_MS = 750"

definition REQUIRED_CONSECUTIVE :: nat where
  "REQUIRED_CONSECUTIVE = 2"

definition QUEUE_MAXLEN :: nat where
  "QUEUE_MAXLEN = 10"

text \<open>\<^verbatim>\<open>deque.append\<close> on a bounded deque: a full deque drops its leftmost entry.\<close>

definition deque_append :: "candidate list \<Rightarrow> candidate \<Rightarrow> candidate list" where
  "deque_append q c = (if QUEUE_MAXLEN \<le> length q then tl q @ [c] else q @ [c])"

text \<open>
  The pruning loop
  \<^verbatim>\<open>while _mode_candidates and _mode_candidates[0][0] < cutoff_ms: popleft()\<close>.
\<close>

fun prune :: "real \<Rightarrow> candidate list \<Rightarrow> candidate list" where
  "prune cutoff_ms [] = []"
| "prune cutoff_ms (c # cs) = (if fst c < cutoff_ms then prune cutoff_ms cs else c # cs)"

text \<open>The slice \<^verbatim>\<open>list(q)[-n:]\<close> for positive \<open>n\<close>.\<close>

definition last_n :: "nat \<Rightarrow> 'a list \<Rightarrow> 'a list" where
  "last_n n xs = drop (length xs - n) xs"

text \<open>
  \<^verbatim>\<open>should_switch_mode_debounced(account, current_mode=None, qty=None)\<close>.
  It returns the decision together with the queue it leaves behind.
\<close>

definition should_switch_mode_debounced ::
  "string \<Rightarrow> candidate list \<Rightarrow> real \<Rightarrow> string \<Rightarrow> mode option \<Rightarrow> int option
     \<Rightarrow> bool \<times> candidate list" where
  "should_switch_mode_debounced live_account q now_ms account current_mode qty =
     (if \<not> should_switch_mode account qty True then (False, q)
      else let new_mode = detect_mode_from_account live_account account in
        if current_mode = Some new_mode then (False, q)
        else let q1 = deque_append q (now_ms, new_mode, account);
                 cutoff_ms = now_ms - DEBOUNCE_WINDOW_MS;
                 q2 = prune cutoff_ms q1
             in if REQUIRED_CONSECUTIVE \<le> length q2
                   \<and> list_all (\<lambda>c. fst (snd c) = new_mode \<and> snd (snd c) = account)
                        (last_n REQUIRED_CONSECUTIVE q2)
                then (True, [])
                else (False, q2))"


section \<open>The message router (core/message\_router.py)\<close>

text \<open>Python exceptions that the modelled code can raise, as values.\<close>

datatype py_exn = TypeError | ValueError | AttributeError | OSError | OtherException

subsection \<open>Session state\<close>

text \<open>
  Modelled from the spec: the class \<^verbatim>\<open>core.state_manager.StateManager\<close> is
  imported by the router but is not among the sources. The spec describes Session State as
  the record of current mode, current account, a per-mode balance map and a per-symbol
  open-position map. An open position is recorded together with the mode that was current
  when it was stored, which is what the precedence rule of the spec refers to.
\<close>

record open_position =
  op_qty :: int
  op_avg :: "real option"
  op_mode :: mode

record state_manager =
  current_mode :: mode
  current_account :: string
  is_sim_mode :: bool
  balance :: "real option"
  mode_balances :: "mode \<rightharpoonup> real"
  open_positions :: "(string \<times> open_position) list"

text \<open>
  Modelled from the spec: \<^verbatim>\<open>StateManager.update_balance\<close> and
  \<^verbatim>\<open>StateManager.set_balance_for_mode\<close> (not among the sources). The second
  writes the slot of the given mode in the per-mode balance map.
\<close>

definition update_balance :: "state_manager \<Rightarrow> real option \<Rightarrow> state_manager" where
  "update_balance st bal = st\<lparr>balance := bal\<rparr>"

definition set_balance_for_mode :: "state_manager \<Rightarrow> mode \<Rightarrow> real \<Rightarrow> state_manager" where
  "set_balance_for_mode st m v = st\<lparr>mode_balances := (mode_balances st)(m \<mapsto> v)\<rparr>"

text \<open>
  Modelled from the spec: \<^verbatim>\<open>StateManager.update_position\<close> (not among the
  sources). A zero quantity clears the entry of the symbol; any other quantity stores the
  position under the current mode.
\<close>

definition update_position ::
  "state_manager \<Rightarrow> string \<Rightarrow> int \<Rightarrow> real option \<Rightarrow> state_manager" where
  "update_position st symbol qty avg =
     (let others = filter (\<lambda>e. fst e \<noteq> symbol) (open_positions st) in
      if qty = 0 then st\<lparr>open_positions := others\<rparr>
      else st\<lparr>open_positions :=
                 (symbol, \<lparr>op_qty = qty, op_avg = avg, op_mode = current_mode st\<rparr>) # others\<rparr>)"

text \<open>The precedence order of the modes: LIVE above SIM above DEBUG.\<close>

fun precedence :: "mode \<Rightarrow> nat" where
  "precedence LIVE = 2"
| "precedence SIM = 1"
| "precedence DEBUG = 0"

text \<open>
  Modelled from the spec: \<^verbatim>\<open>StateManager.is_mode_blocked\<close> (not among the
  sources). A mode is blocked when Session State records an open position under a mode of
  strictly higher precedence.
\<close>

definition is_mode_blocked :: "state_manager \<Rightarrow> mode \<Rightarrow> bool" where
  "is_mode_blocked st requested =
     list_ex (\<lambda>e. precedence requested < precedence (op_mode (snd e))) (open_positions st)"

subsection \<open>Messages, panels and events\<close>

text \<open>
  The payload dictionaries, with the keys the router reads. A missing string key is the
  empty string (both are falsy in the source); a missing number is \<open>None\<close>.
\<close>

record order_msg =
  o_TradeAccount :: string
  o_Symbol :: string
  o_OrderStatus :: "int option"

record position_msg =
  p_symbol :: string
  p_qty :: "int option"
  p_PositionQuantity :: "int option"
  p_avg_entry :: "real option"
  p_TradeAccount :: string

record balance_msg =
  b_balance :: "real option"
  b_CashBalance :: "real option"
  b_AccountValue :: "real option"
  b_account :: string
  b_TradeAccount :: string

text \<open>
  A panel is described by the hooks it has (the source tests them with
  \<^verbatim>\<open>hasattr\<close> on the signal path and calls them under
  \<^verbatim>\<open>contextlib.suppress\<close> on the \<^verbatim>\<open>route\<close> path).
  A hook that is called records an event and returns.
\<close>

record panel =
  has_set_trading_mode :: bool
  has_on_order_update :: bool
  has_on_position_update :: bool
  has_set_account_balance :: bool
  has_update_equity_series_from_balance :: bool
  has_register_order_event :: bool
  has_set_account :: bool

datatype panel_id = PanelBalance | PanelLive | PanelStats

datatype event =
    SetTradingMode panel_id mode string
  | OnOrderUpdate order_msg
  | OnPositionUpdate position_msg
  | SetAccountBalance "real option"
  | UpdateEquitySeries "real option" "mode option"
  | SetAccount string
  | RegisterOrderEvent order_msg
  | TradeManagerSetAccount string
  | TradeManagerOnPosition position_msg
  | RecordOrder order_msg
  | ModeChangedEmit mode

text \<open>
  The configuration the router reads: the configured LIVE account, and whether
  \<^verbatim>\<open>utils.qt_bridge.marshal_to_qt_thread\<close> (not among the sources) raises.
  When it does not raise, the marshalled call is made at once.
\<close>

record env =
  live_account :: string
  marshal_raises :: bool

text \<open>
  The router object. \<open>r_current_mode\<close> and \<open>r_current_account\<close> are the fields
  \<^verbatim>\<open>_current_mode\<close> and \<^verbatim>\<open>_current_account\<close>;
  \<open>mode_candidates\<close> is the module-level debounce queue of
  \<^verbatim>\<open>utils/trade_mode.py\<close>; \<open>events\<close> is the sequence of calls made to
  panels, trade manager and state signals so far, oldest first.
\<close>

record router =
  state :: "state_manager option"
  panel_balance :: "panel option"
  panel_live :: "panel option"
  panel_stats :: "panel option"
  r_current_mode :: mode
  r_current_account :: string
  mode_candidates :: "candidate list"
  events :: "event list"

definition emit :: "router \<Rightarrow> event list \<Rightarrow> router" where
  "emit r es = r\<lparr>events := events r @ es\<rparr>"

definition has_hook :: "panel option \<Rightarrow> (panel \<Rightarrow> bool) \<Rightarrow> bool" where
  "has_hook p h = (case p of None \<Rightarrow> False | Some pn \<Rightarrow> h pn)"

subsection \<open>Mode precedence\<close>

text \<open>\<^verbatim>\<open>MessageRouter._check_mode_precedence(requested_mode)\<close>.\<close>

definition check_mode_precedence :: "router \<Rightarrow> mode \<Rightarrow> bool" where
  "check_mode_precedence r requested_mode =
     (case state r of
        None \<Rightarrow> True
      | Some st \<Rightarrow>
          if requested_mode = LIVE then True
          else if is_mode_blocked st requested_mode then False
          else True)"

subsection \<open>Signal handlers\<close>

text \<open>
  The three \<^verbatim>\<open>set_trading_mode\<close> broadcasts of the signal handlers, in the
  source's order: balance panel, live panel, statistics panel.
\<close>

definition set_trading_mode_calls :: "router \<Rightarrow> mode \<Rightarrow> string \<Rightarrow> event list" where
  "set_trading_mode_calls r detected_mode account =
     (if has_hook (panel_balance r) has_set_trading_mode
      then [SetTradingMode PanelBalance detected_mode account] else [])
     @ (if has_hook (panel_live r) has_set_trading_mode
        then [SetTradingMode PanelLive detected_mode account] else [])
     @ (if has_hook (panel_stats r) has_set_trading_mode
        then [SetTradingMode PanelStats detected_mode account] else [])"

text \<open>
  The part of both signal handlers that follows a passed precedence check: broadcast the
  mode, then store it. An exception of the marshalling is caught by the enclosing
  \<^verbatim>\<open>except Exception\<close>, which only logs: the mode is then not stored.
\<close>

definition commit_mode_switch :: "env \<Rightarrow> router \<Rightarrow> mode \<Rightarrow> string \<Rightarrow> router" where
  "commit_mode_switch e r detected_mode account =
     (let calls = set_trading_mode_calls r detected_mode account in
      if calls \<noteq> [] \<and> marshal_raises e then r
      else (emit r calls)\<lparr>r_current_mode := detected_mode, r_current_account := account\<rparr>)"

text \<open>
  \<^verbatim>\<open>MessageRouter._on_order_signal\<close>. \<open>now_ms\<close> is the clock reading
  used by the debounce. The drift check and the fill summary only log, and are left out.
  A failed marshalling of \<^verbatim>\<open>on_order_update\<close> falls back to the direct call,
  so the hook is called either way.
\<close>

definition route_order_to_panels :: "router \<Rightarrow> order_msg \<Rightarrow> router" where
  "route_order_to_panels r msg =
     (if has_hook (panel_live r) has_on_order_update then emit r [OnOrderUpdate msg] else r)"

definition on_order_signal :: "env \<Rightarrow> real \<Rightarrow> router \<Rightarrow> order_msg \<Rightarrow> router" where
  "on_order_signal e now_ms r msg =
     (let account = o_TradeAccount msg in
      if account = [] then route_order_to_panels r msg
      else
        let (switch, q) = should_switch_mode_debounced (live_account e) (mode_candidates r)
                            now_ms account (Some (r_current_mode r)) None;
            r1 = r\<lparr>mode_candidates := q\<rparr>
        in if \<not> switch then route_order_to_panels r1 msg
           else
             let detected_mode = detect_mode_from_account (live_account e) account in
             if state r1 \<noteq> None \<and> \<not> check_mode_precedence r1 detected_mode then r1
             else route_order_to_panels (commit_mode_switch e r1 detected_mode account) msg)"

text \<open>\<^verbatim>\<open>MessageRouter._on_position_signal\<close>.\<close>

definition route_position_to_panels :: "router \<Rightarrow> position_msg \<Rightarrow> router" where
  "route_position_to_panels r msg =
     (if has_hook (panel_live r) has_on_position_update
      then emit r [OnPositionUpdate msg] else r)"

definition signal_qty :: "position_msg \<Rightarrow> int" where
  "signal_qty msg =
     (case p_qty msg of
        Some q \<Rightarrow> q
      | None \<Rightarrow> (case p_PositionQuantity msg of Some q \<Rightarrow> q | None \<Rightarrow> 0))"

definition on_position_signal :: "env \<Rightarrow> real \<Rightarrow> router \<Rightarrow> position_msg \<Rightarrow> router" where
  "on_position_signal e now_ms r msg =
     (let qty = signal_qty msg; account = p_TradeAccount msg in
      if qty = 0 \<or> account = [] then route_position_to_panels r msg
      else
        let (switch, q) = should_switch_mode_debounced (live_account e) (mode_candidates r)
                            now_ms account (Some (r_current_mode r)) (Some qty);
            r1 = r\<lparr>mode_candidates := q\<rparr>
        in if \<not> switch then route_position_to_panels r1 msg
           else
             let detected_mode = detect_mode_from_account (live_account e) account in
             if state r1 \<noteq> None \<and> \<not> check_mode_precedence r1 detected_mode then r1
             else route_position_to_panels (commit_mode_switch e r1 detected_mode account) msg)"


text \<open>
  Python's \<^verbatim>\<open>or\<close> on optional numbers and on strings: the first operand
  when it is truthy, the second otherwise. \<open>None\<close> and zero are falsy.
\<close>

definition truthy :: "real option \<Rightarrow> bool" where
  "truthy v = (case v of None \<Rightarrow> False | Some x \<Rightarrow> x \<noteq> 0)"

definition py_or :: "real option \<Rightarrow> real option \<Rightarrow> real option" where
  "py_or a b = (if truthy a then a else b)"

definition str_or :: "string \<Rightarrow> string \<Rightarrow> string" where
  "str_or a b = (if a \<noteq> [] then a else b)"

text \<open>
  The two extractions both balance handlers start with:
  \<^verbatim>\<open>msg.get("balance") or msg.get("CashBalance") or msg.get("AccountValue")\<close>
  (signal path only) and
  \<^verbatim>\<open>msg.get("account") or msg.get("TradeAccount") or ""\<close>.
\<close>

definition signal_balance_value :: "balance_msg \<Rightarrow> real option" where
  "signal_balance_value msg =
     py_or (py_or (b_balance msg) (b_CashBalance msg)) (b_AccountValue msg)"

definition balance_account :: "balance_msg \<Rightarrow> string" where
  "balance_account msg = str_or (b_account msg) (b_TradeAccount msg)"

text \<open>
  \<^verbatim>\<open>MessageRouter._update_balance_ui(balance_value, mode)\<close>, the balance-render
  path: it calls the hooks \<^verbatim>\<open>set_account_balance\<close> and
  \<^verbatim>\<open>update_equity_series_from_balance\<close> of the balance panel.
\<close>

definition update_balance_ui :: "router \<Rightarrow> real \<Rightarrow> mode option \<Rightarrow> router" where
  "update_balance_ui r balance_value m =
     (case (panel_balance r, state r) of
        (Some pb, Some st) \<Rightarrow>
          if m \<noteq> None \<and> m \<noteq> Some (current_mode st) then r
          else emit r
                 ((if has_set_account_balance pb
                   then [SetAccountBalance (Some balance_value)] else [])
                  @ (if has_update_equity_series_from_balance pb
                     then [UpdateEquitySeries (Some balance_value) m] else []))
      | _ \<Rightarrow> r)"

text \<open>
  \<^verbatim>\<open>MessageRouter._on_balance_signal\<close>. The read of the old balance
  (\<^verbatim>\<open>get_balance_for_mode\<close>) only feeds a debug print. A failed marshalling of
  \<^verbatim>\<open>_update_balance_ui\<close> falls back to the direct call.
\<close>

definition on_balance_signal :: "env \<Rightarrow> router \<Rightarrow> balance_msg \<Rightarrow> router" where
  "on_balance_signal e r msg =
     (let balance_value = signal_balance_value msg;
          account = balance_account msg
      in case balance_value of
           None \<Rightarrow> r
         | Some v \<Rightarrow>
             let m = (if account \<noteq> [] then detect_mode_from_account (live_account e) account
                      else SIM)
             in if m = SIM then r
                else
                  let r1 = (case state r of
                              None \<Rightarrow> r
                            | Some st \<Rightarrow> r\<lparr>state := Some (set_balance_for_mode st m v)\<rparr>)
                  in case (panel_balance r1, state r1) of
                       (Some pb, Some st) \<Rightarrow>
                         if m = current_mode st then update_balance_ui r1 v (Some m) else r1
                     | _ \<Rightarrow> r1)"

subsection \<open>The handlers behind \<^verbatim>\<open>route\<close>\<close>

text \<open>
  A handler returns the exception that leaves it, if any, together with the router as the
  handler left it.
\<close>

text \<open>\<^verbatim>\<open>MessageRouter._on_trade_account\<close>.\<close>

definition lower_startswith_sim :: "string \<Rightarrow> bool" where
  "lower_startswith_sim acct =
     (case acct of
        a # b # c # _ \<Rightarrow> a \<in> {CHR ''s'', CHR ''S''} \<and> b \<in> {CHR ''i'', CHR ''I''}
                           \<and> c \<in> {CHR ''m'', CHR ''M''}
      | _ \<Rightarrow> False)"

definition on_trade_account :: "router \<Rightarrow> string \<Rightarrow> py_exn option \<times> router" where
  "on_trade_account r acct =
     (let r1 = emit r [TradeManagerSetAccount acct];
          r2 = (if has_hook (panel_balance r1) has_set_account
                then emit r1 [SetAccount acct] else r1);
          r3 = (case state r2 of
                  None \<Rightarrow> r2
                | Some st \<Rightarrow>
                    r2\<lparr>state := Some (st\<lparr>current_account := acct,
                                          is_sim_mode := lower_startswith_sim acct\<rparr>)\<rparr>)
      in (None, r3))"

text \<open>
  \<^verbatim>\<open>MessageRouter._on_balance_update\<close>. \<^verbatim>\<open>float(bal)\<close> raises
  \<^verbatim>\<open>TypeError\<close> on a missing balance. The two hooks are called inside one
  \<^verbatim>\<open>try\<close>: when the first is missing the second is not reached.
\<close>

definition on_balance_update :: "env \<Rightarrow> router \<Rightarrow> balance_msg \<Rightarrow> py_exn option \<times> router" where
  "on_balance_update e r payload =
     (let bal = b_balance payload;
          account = balance_account payload;
          m = (if account \<noteq> [] then Some (detect_mode_from_account (live_account e) account)
               else None)
      in case state r of
           None \<Rightarrow> (None, r)
         | Some st \<Rightarrow>
             let st1 = update_balance st bal in
             if m \<noteq> None \<and> bal = None then (Some TypeError, r\<lparr>state := Some st1\<rparr>)
             else
               let st2 = (case (m, bal) of
                            (Some md, Some v) \<Rightarrow> set_balance_for_mode st1 md v
                          | _ \<Rightarrow> st1);
                   r2 = r\<lparr>state := Some st2\<rparr>
               in case panel_balance r2 of
                    None \<Rightarrow> (None, r2)
                  | Some pb \<Rightarrow>
                      if m \<noteq> None \<and> m \<noteq> Some (current_mode st2) then (None, r2)
                      else if \<not> has_set_account_balance pb then (None, r2)
                      else (None, emit r2
                              (SetAccountBalance bal
                               # (if has_update_equity_series_from_balance pb
                                  then [UpdateEquitySeries bal m] else []))))"

text \<open>
  \<^verbatim>\<open>MessageRouter._on_position_update\<close>, with the table
  \<^verbatim>\<open>PHANTOM_POSITIONS\<close> of the source.
\<close>

definition PHANTOM_POSITIONS :: "(string \<times> int \<times> real) list" where
  "PHANTOM_POSITIONS = [(''F.US.MESM25'', (1, 5996.5))]"

definition is_phantom :: "string \<Rightarrow> int \<Rightarrow> real option \<Rightarrow> bool" where
  "is_phantom symbol qty avg =
     (case map_of PHANTOM_POSITIONS symbol of
        None \<Rightarrow> False
      | Some (phantom_qty, phantom_avg) \<Rightarrow> qty = phantom_qty \<and> avg = Some phantom_avg)"

definition on_position_update :: "router \<Rightarrow> position_msg \<Rightarrow> py_exn option \<times> router" where
  "on_position_update r payload =
     (let symbol = p_symbol payload;
          qty = (case p_qty payload of None \<Rightarrow> 0 | Some q \<Rightarrow> q);
          avg = p_avg_entry payload
      in if qty = 0
         then (None, (case state r of
                        None \<Rightarrow> r
                      | Some st \<Rightarrow> r\<lparr>state := Some (update_position st symbol 0 None)\<rparr>))
         else if avg = None \<or> avg = Some 0 then (None, r)
         else if is_phantom symbol qty avg then (None, r)
         else
           let r1 = (if has_hook (panel_live r) has_on_position_update
                     then emit r [OnPositionUpdate payload] else r);
               r2 = emit r1 [TradeManagerOnPosition payload];
               r3 = (case state r2 of
                       None \<Rightarrow> r2
                     | Some st \<Rightarrow> r2\<lparr>state := Some (update_position st symbol qty avg)\<rparr>)
           in (None, r3))"

text \<open>
  \<^verbatim>\<open>MessageRouter._on_order_update\<close>. It writes
  \<^verbatim>\<open>self.state.current_mode\<close> directly and emits the state's
  \<^verbatim>\<open>modeChanged\<close> signal.
\<close>

definition on_order_update :: "env \<Rightarrow> router \<Rightarrow> order_msg \<Rightarrow> py_exn option \<times> router" where
  "on_order_update e r payload =
     (let account = o_TradeAccount payload;
          r1 = (if account = [] then r
                else
                  let order_mode = detect_mode_from_account (live_account e) account in
                  case state r of
                    None \<Rightarrow> r
                  | Some st \<Rightarrow>
                      if order_mode \<noteq> current_mode st
                      then emit (r\<lparr>state := Some (st\<lparr>current_mode := order_mode\<rparr>)\<rparr>)
                             [ModeChangedEmit order_mode]
                      else r);
          r2 = (if has_hook (panel_live r1) has_on_order_update
                then emit r1 [OnOrderUpdate payload] else r1);
          r3 = (if has_hook (panel_stats r2) has_register_order_event
                then emit r2 [RegisterOrderEvent payload] else r2);
          r4 = (if state r3 \<noteq> None then emit r3 [RecordOrder payload] else r3)
      in (None, r4))"

text \<open>
  \<^verbatim>\<open>MessageRouter.route(msg)\<close>. The normalized message
  \<^verbatim>\<open>{"type": ..., "payload": ...}\<close> is a tagged value; an exception of the
  handler is caught and logged, so only the router state is returned.
\<close>

datatype app_message =
    TRADE_ACCOUNT string
  | BALANCE_UPDATE balance_msg
  | POSITION_UPDATE position_msg
  | ORDER_UPDATE order_msg
  | MARKET_TRADE
  | MARKET_BIDASK
  | UNHANDLED string
  | EMPTY_TYPE

fun route :: "env \<Rightarrow> router \<Rightarrow> app_message \<Rightarrow> router" where
  "route e r (TRADE_ACCOUNT acct) = snd (on_trade_account r acct)"
| "route e r (BALANCE_UPDATE payload) = snd (on_balance_update e r payload)"
| "route e r (POSITION_UPDATE payload) = snd (on_position_update r payload)"
| "route e r (ORDER_UPDATE payload) = snd (on_order_update e r payload)"
| "route e r MARKET_TRADE = r"
| "route e r MARKET_BIDASK = r"
| "route e r (UNHANDLED mtype) = r"
| "route e r EMPTY_TYPE = r"


section \<open>The transport (services/dtc\_json\_client.py)\<close>

text \<open>Bytes are characters; the frame delimiter is the zero byte.\<close>

type_synonym byte = char

definition NULL :: byte where
  "NULL = CHR 0x00"

text \<open>
  A decoded JSON value. Only a JSON object decodes to a Python \<^verbatim>\<open>dict\<close>;
  \<^verbatim>\<open>msg.get("Type")\<close> raises \<^verbatim>\<open>AttributeError\<close> on every other
  value.
\<close>

datatype json_value =
    JObject "(string \<times> json_value) list"
  | JArray "json_value list"
  | JString string
  | JNumber real
  | JBool bool
  | JNull

fun is_dict :: "json_value \<Rightarrow> bool" where
  "is_dict (JObject kvs) = True"
| "is_dict v = False"

datatype dumps_result = Dumped "byte list" | DumpsTypeOrValueError | DumpsOtherError

datatype write_result = WriteOk | WriteOSError | WriteOtherError

text \<open>
  What the client takes from outside: the debug flags of \<^verbatim>\<open>config.settings\<close>,
  the JSON library (\<^verbatim>\<open>json.loads(raw.decode("utf-8"))\<close> gives \<open>None\<close>
  when it raises), the socket's \<^verbatim>\<open>sendall\<close>, whether the sink registered for
  a message raises, and the \<^verbatim>\<open>on_msg\<close> hook (absent, or telling whether it
  raises on a message).
\<close>

record settings =
  DEBUG_NETWORK :: bool
  DEBUG_DATA :: bool
  DEBUG_UI :: bool
  DEBUG_CORE :: bool
  json_loads :: "byte list \<Rightarrow> json_value option"
  json_dumps :: "(string \<times> json_value) list \<Rightarrow> dumps_result"
  sendall :: "byte list \<Rightarrow> write_result"
  sink_raises :: "json_value \<Rightarrow> bool"
  on_msg :: "(json_value \<Rightarrow> bool) option"

datatype client_event =
    Sent "byte list"
  | SockShutdown
  | SockClose
  | LoggerClose
  | OnDisconnected
  | LogError string
  | Dispatched json_value
  | OnMsg json_value

text \<open>
  The client object: the socket (a handle, \<open>None\<close> when there is no connection), the
  receive buffer, the stop flag \<^verbatim>\<open>_stop\<close>, whether a diagnostic logger and a
  disconnect callback are set, and the effects so far, oldest first.
\<close>

record client =
  sock :: "nat option"
  rx_buf :: "byte list"
  stop :: bool
  diagnostic_logger :: bool
  on_disconnected :: bool
  effects :: "client_event list"

definition record_effects :: "client \<Rightarrow> client_event list \<Rightarrow> client" where
  "record_effects c es = c\<lparr>effects := effects c @ es\<rparr>"

text \<open>
  \<^verbatim>\<open>DTCClientJSON.close()\<close>. Exceptions of the socket calls, of the logger and
  of the callback are suppressed.
\<close>

definition close :: "client \<Rightarrow> client" where
  "close c =
     (let c1 = c\<lparr>stop := True\<rparr>;
          c2 = (if sock c1 \<noteq> None then record_effects c1 [SockShutdown, SockClose] else c1);
          c3 = c2\<lparr>sock := None\<rparr>;
          c4 = (if diagnostic_logger c3 then record_effects c3 [LoggerClose] else c3)
      in if on_disconnected c4 then record_effects c4 [OnDisconnected] else c4)"

text \<open>
  \<^verbatim>\<open>DTCClientJSON._send(obj)\<close>. The result is the value the call returns
  (\<open>Inr ()\<close>, Python's \<^verbatim>\<open>None\<close>) or the exception that leaves it
  (\<open>Inl\<close>). \<open>send_try\<close> is the body of the outer \<^verbatim>\<open>try\<close>; its two
  handlers follow in \<open>send\<close>.
\<close>

definition send_try ::
  "settings \<Rightarrow> (string \<times> json_value) list \<Rightarrow> py_exn + client_event list" where
  "send_try s obj =
     (case json_dumps s obj of
        DumpsTypeOrValueError \<Rightarrow> Inr [LogError ''JSON serialization failed for DTC message'']
      | DumpsOtherError \<Rightarrow> Inl OtherException
      | Dumped data \<Rightarrow>
          (case sendall s (data @ [NULL]) of
             WriteOk \<Rightarrow> Inr [Sent (data @ [NULL])]
           | WriteOSError \<Rightarrow> Inl OSError
           | WriteOtherError \<Rightarrow> Inl OtherException))"

definition send ::
  "settings \<Rightarrow> client \<Rightarrow> (string \<times> json_value) list \<Rightarrow> (py_exn + unit) \<times> client" where
  "send s c obj =
     (if sock c = None
      then (Inr (), if DEBUG_NETWORK s
                    then record_effects c [LogError ''No socket connection available'']
                    else c)
      else (case send_try s obj of
              Inr es \<Rightarrow> (Inr (), record_effects c es)
            | Inl OSError \<Rightarrow>
                (Inr (), record_effects c [LogError ''Socket error sending DTC message''])
            | Inl other \<Rightarrow>
                (Inr (), record_effects c [LogError ''Unexpected error sending DTC message''])))"

subsection \<open>The receive loop\<close>

text \<open>\<^verbatim>\<open>self._rx_buf.index(0)\<close>; \<open>None\<close> is the \<^verbatim>\<open>ValueError\<close>.\<close>

fun index_of :: "byte list \<Rightarrow> nat option" where
  "index_of [] = None"
| "index_of (b # bs) =
     (if b = NULL then Some 0
      else (case index_of bs of None \<Rightarrow> None | Some i \<Rightarrow> Some (Suc i)))"

text \<open>
  \<^verbatim>\<open>_dispatch_for_panels(msg)\<close>, as far as exceptions go: its first statement
  reads \<^verbatim>\<open>msg.get("Type")\<close>; a sink is called through
  \<^verbatim>\<open>_safe_call\<close>, which lets the sink's exception through unless
  \<^verbatim>\<open>DEBUG_UI\<close> is set.
\<close>

definition dispatch_for_panels :: "settings \<Rightarrow> json_value \<Rightarrow> py_exn option" where
  "dispatch_for_panels s msg =
     (if \<not> is_dict msg then Some AttributeError
      else if sink_raises s msg \<and> \<not> DEBUG_UI s then Some OtherException
      else None)"

text \<open>
  The body of the inner \<^verbatim>\<open>while True\<close> for one extracted frame \<open>raw\<close>.
  The two handlers that log evaluate \<^verbatim>\<open>msg.get("Type")\<close> again, which raises
  when the message is not a dictionary; that exception is not caught inside the loop.
\<close>

definition handle_frame ::
  "settings \<Rightarrow> byte list \<Rightarrow> client_event list \<Rightarrow> py_exn option \<times> client_event list" where
  "handle_frame s raw es =
     (if raw = [] then (None, es)
      else (case json_loads s raw of
              None \<Rightarrow> (None, if DEBUG_DATA s then es @ [LogError ''DTC JSON parse failed'']
                              else es)
            | Some msg \<Rightarrow>
                let es1 = es @ [Dispatched msg] in
                if dispatch_for_panels s msg \<noteq> None \<and> DEBUG_UI s \<and> \<not> is_dict msg
                then (Some AttributeError, es1)
                else
                  let es2 = (if dispatch_for_panels s msg \<noteq> None \<and> DEBUG_UI s
                             then es1 @ [LogError ''DTC dispatch failed''] else es1)
                  in (case on_msg s of
                        None \<Rightarrow> (None, es2)
                      | Some raises \<Rightarrow>
                          let es3 = es2 @ [OnMsg msg] in
                          if \<not> raises msg then (None, es3)
                          else if \<not> DEBUG_CORE s then (None, es3)
                          else if \<not> is_dict msg then (Some AttributeError, es3)
                          else (None, es3 @ [LogError ''DTC on_msg handler failed'']))))"

text \<open>
  The inner \<^verbatim>\<open>while True\<close>: extract frames from the buffer until it holds no
  delimiter.
\<close>

function drain ::
  "settings \<Rightarrow> byte list \<Rightarrow> client_event list
     \<Rightarrow> py_exn option \<times> byte list \<times> client_event list" where
  "drain s buf es =
     (case index_of buf of
        None \<Rightarrow> (None, buf, es)
      | Some i \<Rightarrow>
          (case handle_frame s (take i buf) es of
             (Some ex, es') \<Rightarrow> (Some ex, drop (Suc i) buf, es')
           | (None, es') \<Rightarrow> drain s (drop (Suc i) buf) es'))"
  by pat_completeness auto

lemma index_of_less: "index_of buf = Some i \<Longrightarrow> i < length buf"
  by (induction buf arbitrary: i) (auto split: if_splits option.splits)

termination drain
  by (relation "measure (\<lambda>(s, buf, es). length buf)") (auto dest: index_of_less)

text \<open>
  \<^verbatim>\<open>DTCClientJSON._rx_loop\<close> over the results of the successive
  \<^verbatim>\<open>recv\<close> calls. The loop is \<open>Running\<close> when the results given so far
  are used up, \<open>Stopped\<close> when it left through the loop condition or an empty chunk,
  and \<open>Raised\<close> when an exception left it; in the last two cases
  \<^verbatim>\<open>close()\<close> has run in the \<^verbatim>\<open>finally\<close> clause.
\<close>

datatype recv_result = Chunk "byte list" | Timeout | RecvError

datatype loop_status = Running | Stopped | Raised py_exn

fun rx_loop :: "settings \<Rightarrow> client \<Rightarrow> recv_result list \<Rightarrow> loop_status \<times> client" where
  "rx_loop s c [] = (if stop c \<or> sock c = None then (Stopped, close c) else (Running, c))"
| "rx_loop s c (r # rs) =
     (if stop c \<or> sock c = None then (Stopped, close c)
      else (case r of
              Timeout \<Rightarrow> rx_loop s c rs
            | RecvError \<Rightarrow> (Raised OSError, close c)
            | Chunk chunk \<Rightarrow>
                if chunk = [] then (Stopped, close c)
                else (case drain s (rx_buf c @ chunk) (effects c) of
                        (Some ex, buf, es) \<Rightarrow>
                          (Raised ex, close (c\<lparr>rx_buf := buf, effects := es\<rparr>))
                      | (None, buf, es) \<Rightarrow>
                          rx_loop s (c\<lparr>rx_buf := buf, effects := es\<rparr>) rs)))"

text \<open>
  The framing of a byte stream, for stating what the loop yields: the delimiter-terminated
  segments in order, and the bytes after the last delimiter.
\<close>

function frames_of :: "byte list \<Rightarrow> byte list list" where
  "frames_of buf =
     (case index_of buf of
        None \<Rightarrow> []
      | Some i \<Rightarrow> take i buf # frames_of (drop (Suc i) buf))"
  by pat_completeness auto

termination frames_of
  by (relation "measure length") (auto dest: index_of_less)

function residue :: "byte list \<Rightarrow> byte list" where
  "residue buf =
     (case index_of buf of
        None \<Rightarrow> buf
      | Some i \<Rightarrow> residue (drop (Suc i) buf))"
  by pat_completeness auto

termination residue
  by (relation "measure length") (auto dest: index_of_less)

text \<open>The messages handed to \<^verbatim>\<open>_dispatch_for_panels\<close>, oldest first.\<close>

fun dispatched :: "client_event list \<Rightarrow> json_value list" where
  "dispatched [] = []"
| "dispatched (Dispatched msg # es) = msg # dispatched es"
| "dispatched (ev # es) = dispatched es"

text \<open>The messages that the non-empty segments of a stream decode to.\<close>

fun decoded :: "settings \<Rightarrow> byte list list \<Rightarrow> json_value list" where
  "decoded s [] = []"
| "decoded s (raw # raws) =
     (if raw = [] then decoded s raws
      else (case json_loads s raw of
              None \<Rightarrow> decoded s raws
            | Some msg \<Rightarrow> msg # decoded s raws))"


text \<open>
  The results of \<^verbatim>\<open>recv\<close> under which the loop keeps running (a non-empty chunk
  or a timeout), the bytes a result carries, and the byte stream of a sequence of results.
\<close>

fun delivers :: "recv_result \<Rightarrow> bool" where
  "delivers (Chunk chunk) = (chunk \<noteq> [])"
| "delivers Timeout = True"
| "delivers RecvError = False"

fun bytes_of :: "recv_result \<Rightarrow> byte list" where
  "bytes_of (Chunk chunk) = chunk"
| "bytes_of r = []"

definition stream_of :: "recv_result list \<Rightarrow> byte list" where
  "stream_of rs = concat (map bytes_of rs)"

text \<open>The concatenation of segments, each followed by the delimiter.\<close>

definition terminated :: "byte list list \<Rightarrow> byte list" where
  "terminated segs = concat (map (\<lambda>seg. seg @ [NULL]) segs)"

text \<open>
  A segment is harmless for the exception handlers of the loop when it does not decode, or
  decodes to a dictionary (a key-value record, the only shape of a message).
\<close>

definition decodes_to_dict :: "settings \<Rightarrow> byte list \<Rightarrow> bool" where
  "decodes_to_dict s raw =
     (case json_loads s raw of None \<Rightarrow> True | Some msg \<Rightarrow> is_dict msg)"


section \<open>Example configurations\<close>

text \<open>
  Concrete inputs on which the theorems below are evaluated: a configuration with LIVE
  account \<open>120005\<close>, a router in its initial state with all three panels registered,
  and a router in LIVE mode whose state holds an open LIVE position and whose debounce queue
  holds one proposal for \<open>Sim1\<close>.
\<close>

definition example_env :: env where
  "example_env = \<lparr>live_account = ''120005'', marshal_raises = False\<rparr>"

definition example_panel :: panel where
  "example_panel = \<lparr>has_set_trading_mode = True, has_on_order_update = True,
     has_on_position_update = True, has_set_account_balance = True,
     has_update_equity_series_from_balance = True, has_register_order_event = True,
     has_set_account = True\<rparr>"

definition initial_state :: state_manager where
  "initial_state = \<lparr>current_mode = DEBUG, current_account = [], is_sim_mode = False,
     balance = None, mode_balances = Map.empty, open_positions = []\<rparr>"

definition initial_router :: router where
  "initial_router = \<lparr>state = Some initial_state, panel_balance = Some example_panel,
     panel_live = Some example_panel, panel_stats = Some example_panel,
     r_current_mode = DEBUG, r_current_account = [], mode_candidates = [], events = []\<rparr>"

definition live_order :: order_msg where
  "live_order = \<lparr>o_TradeAccount = ''120005'', o_Symbol = ''F.US.MESM25'', o_OrderStatus = Some 3\<rparr>"

definition sim_order :: order_msg where
  "sim_order = \<lparr>o_TradeAccount = ''Sim1'', o_Symbol = ''F.US.MESM25'', o_OrderStatus = Some 3\<rparr>"

definition phantom_position :: position_msg where
  "phantom_position = \<lparr>p_symbol = ''F.US.MESM25'', p_qty = Some 1, p_PositionQuantity = None,
     p_avg_entry = Some 5996.5, p_TradeAccount = []\<rparr>"

definition sim_balance :: balance_msg where
  "sim_balance = \<lparr>b_balance = Some 5000, b_CashBalance = None, b_AccountValue = None,
     b_account = ''Sim1'', b_TradeAccount = []\<rparr>"

definition live_state :: state_manager where
  "live_state = \<lparr>current_mode = LIVE, current_account = ''120005'', is_sim_mode = False,
     balance = None, mode_balances = Map.empty,
     open_positions = [(''F.US.MESM25'', \<lparr>op_qty = 2, op_avg = Some 6001.25, op_mode = LIVE\<rparr>)]\<rparr>"

definition live_router :: router where
  "live_router = \<lparr>state = Some live_state, panel_balance = Some example_panel,
     panel_live = Some example_panel, panel_stats = Some example_panel,
     r_current_mode = LIVE, r_current_account = ''120005'',
     mode_candidates = [(1000, SIM, ''Sim1'')], events = []\<rparr>"

definition sim_position :: position_msg where
  "sim_position = \<lparr>p_symbol = ''F.US.MESM25'', p_qty = Some 2, p_PositionQuantity = None,
     p_avg_entry = Some 6000, p_TradeAccount = ''Sim1''\<rparr>"

definition debug_balance :: balance_msg where
  "debug_balance = \<lparr>b_balance = Some 5000, b_CashBalance = None, b_AccountValue = None,
     b_account = ''Unknown123'', b_TradeAccount = []\<rparr>"

text \<open>
  For the transport: settings with all debug flags off, a socket that accepts every write,
  and a JSON library given on the byte strings used below (it decodes \<open>{}\<close> to the empty
  dictionary and rejects the other byte strings that occur; it encodes the empty dictionary
  as \<open>{}\<close>); the same settings with a socket whose writes fail; a connected client with a
  disconnect callback, and a client without connection.
\<close>

definition example_settings :: settings where
  "example_settings = \<lparr>DEBUG_NETWORK = False, DEBUG_DATA = False, DEBUG_UI = False,
     DEBUG_CORE = False,
     json_loads = (\<lambda>raw. if raw = ''{}'' then Some (JObject []) else None),
     json_dumps = (\<lambda>obj. if obj = [] then Dumped ''{}'' else DumpsTypeOrValueError),
     sendall = (\<lambda>data. WriteOk),
     sink_raises = (\<lambda>msg. False),
     on_msg = None\<rparr>"

definition broken_socket_settings :: settings where
  "broken_socket_settings = example_settings\<lparr>sendall := (\<lambda>data. WriteOSError)\<rparr>"

definition connected_client :: client where
  "connected_client = \<lparr>sock = Some 3, rx_buf = [], stop = False, diagnostic_logger = False,
     on_disconnected = True, effects = []\<rparr>"

definition unconnected_client :: client where
  "unconnected_client = \<lparr>sock = None, rx_buf = [], stop = False, diagnostic_logger = False,
     on_disconnected = True, effects = []\<rparr>"

section \<open>Properties of the mode detector\<close>

lemma strip_Nil: "strip [] = []"
  by (simp add: strip_def)

text \<open>
  Claim C4, as amended. \<^verbatim>\<open>detect_mode_from_account\<close> is a total function of the
  configured LIVE account and the account string, and it classifies the account with its
  leading and trailing whitespace removed: a stripped account that is empty gives DEBUG, one
  equal to the configured LIVE account gives LIVE, one that starts with \<open>Sim\<close> gives SIM,
  every other gives DEBUG.
\<close>

theorem detect_mode_from_account_stripped:
  "detect_mode_from_account live account =
     (if strip account = [] then DEBUG
      else if strip account = live then LIVE
      else if startswith (strip account) ''Sim'' then SIM
      else DEBUG)"
  by (cases "account = []") (auto simp add: detect_mode_from_account_def Let_def strip_Nil)

text \<open>
  The examples of the specification, and an account with a leading blank, with the LIVE
  account configured as \<open>120005\<close>.
\<close>

theorem detect_mode_from_account_stripped_witness:
  "detect_mode_from_account ''120005'' [] = DEBUG
   \<and> detect_mode_from_account ''120005'' ''120005'' = LIVE
   \<and> detect_mode_from_account ''120005'' ''Sim1'' = SIM
   \<and> detect_mode_from_account ''120005'' ''Sim2'' = SIM
   \<and> detect_mode_from_account ''120005'' ''Unknown123'' = DEBUG
   \<and> detect_mode_from_account ''120005'' '' Sim1'' = SIM"
  using detect_mode_from_account_stripped[of "''120005''" "[]"]
    detect_mode_from_account_stripped[of "''120005''" "''120005''"]
    detect_mode_from_account_stripped[of "''120005''" "''Sim1''"]
    detect_mode_from_account_stripped[of "''120005''" "''Sim2''"]
    detect_mode_from_account_stripped[of "''120005''" "''Unknown123''"]
    detect_mode_from_account_stripped[of "''120005''" "'' Sim1''"]
  by (simp add: strip_def isspace_def startswith_def)

text \<open>
  Claim C4 as stated fails: the account \<open>Sim1\<close> preceded by a blank is not empty, is not
  the configured LIVE account and does not start with \<open>Sim\<close>, yet it is classified SIM
  and not DEBUG.
\<close>

theorem detect_mode_from_account_counterexample:
  "detect_mode_from_account ''120005'' '' Sim1'' = SIM
   \<and> '' Sim1'' \<noteq> []
   \<and> '' Sim1'' \<noteq> ''120005''
   \<and> \<not> startswith '' Sim1'' ''Sim''"
  by (simp add: detect_mode_from_account_def strip_def isspace_def startswith_def)

subsection \<open>The debounce\<close>

lemma prune_snoc_last:
  "0 \<le> w \<Longrightarrow>
   prune (now - w) (xs @ [(now, m, a)]) \<noteq> []
   \<and> last (prune (now - w) (xs @ [(now, m, a)])) = (now, m, a)"
  by (induction xs) auto

lemma deque_append_snoc: "\<exists>ys. deque_append q c = ys @ [c]"
  by (simp add: deque_append_def)

lemma two_le_length_snoc2: "2 \<le> length xs \<Longrightarrow> \<exists>ys a. xs = ys @ [a, last xs]"
proof (induction xs rule: rev_induct)
  case Nil
  then show ?case by simp
next
  case (snoc x xs)
  then have "xs \<noteq> []" by auto
  then obtain ys a where "xs = ys @ [a]" by (metis rev_exhaust)
  then show ?case by simp
qed

lemma last_n_two:
  assumes "2 \<le> length xs"
  shows "\<exists>c. last_n 2 xs = [c, last xs]"
proof -
  from two_le_length_snoc2[OF assms] obtain ys a where xs: "xs = ys @ [a, last xs]"
    by blast
  have "last_n 2 (ys @ [a, last xs]) = [a, last xs]"
    by (simp add: last_n_def)
  with xs show ?thesis by metis
qed

text \<open>The candidate just appended survives the pruning and is the newest entry.\<close>

lemma pruned_last:
  "prune (now - DEBOUNCE_WINDOW_MS) (deque_append q (now, m, a)) \<noteq> [] \<and>
   last (prune (now - DEBOUNCE_WINDOW_MS) (deque_append q (now, m, a))) = (now, m, a)"
proof -
  obtain ys where "deque_append q (now, m, a) = ys @ [(now, m, a)]"
    using deque_append_snoc by blast
  then show ?thesis
    using prune_snoc_last[of DEBOUNCE_WINDOW_MS now ys m a]
    by (simp add: DEBOUNCE_WINDOW_MS_def)
qed

text \<open>
  Since the newest entry is the new candidate, the source's test (both of the last two
  entries carry the new mode and account) says that the last two entries agree.
\<close>

lemma agree_iff:
  assumes "2 \<le> length q2" and "last q2 = (now, m, a)"
  shows "list_all (\<lambda>c. fst (snd c) = m \<and> snd (snd c) = a) (last_n 2 q2)
         \<longleftrightarrow> (\<exists>c1 c2. last_n 2 q2 = [c1, c2] \<and> snd c1 = snd c2)"
proof -
  from last_n_two[OF assms(1)] obtain c where c: "last_n 2 q2 = [c, (now, m, a)]"
    using assms(2) by auto
  show ?thesis unfolding c by (cases c) auto
qed

lemma debounced_decision:
  "fst (should_switch_mode_debounced live q now account cur qty) \<longleftrightarrow>
     should_switch_mode account qty True
     \<and> cur \<noteq> Some (detect_mode_from_account live account)
     \<and> 2 \<le> length (prune (now - 750)
                     (deque_append q (now, detect_mode_from_account live account, account)))
     \<and> (\<exists>c1 c2. last_n 2 (prune (now - 750)
                 (deque_append q (now, detect_mode_from_account live account, account)))
               = [c1, c2]
            \<and> snd c1 = snd c2)"
proof -
  let ?m = "detect_mode_from_account live account"
  let ?q2 = "prune (now - DEBOUNCE_WINDOW_MS) (deque_append q (now, ?m, account))"
  have l: "last ?q2 = (now, ?m, account)"
    using pruned_last by blast
  have "2 \<le> length ?q2 \<Longrightarrow>
        list_all (\<lambda>c. fst (snd c) = ?m \<and> snd (snd c) = account) (last_n 2 ?q2)
         \<longleftrightarrow> (\<exists>c1 c2. last_n 2 ?q2 = [c1, c2] \<and> snd c1 = snd c2)"
    using agree_iff[OF _ l] by blast
  then show ?thesis
    unfolding should_switch_mode_debounced_def Let_def REQUIRED_CONSECUTIVE_def
    by (auto simp: DEBOUNCE_WINDOW_MS_def)
qed

lemma debounced_clears:
  "fst (should_switch_mode_debounced live q now account cur qty) \<Longrightarrow>
   snd (should_switch_mode_debounced live q now account cur qty) = []"
  unfolding should_switch_mode_debounced_def Let_def
  by (auto split: if_splits)

lemma detect_Sim1: "live \<noteq> ''Sim1'' \<Longrightarrow> detect_mode_from_account live ''Sim1'' = SIM"
  by (simp add: detect_mode_from_account_def strip_def isspace_def startswith_def)

text \<open>Entries that are all older than the window are pruned to the last one.\<close>

lemma prune_stale:
  "\<forall>c\<in>set xs. fst c < cutoff \<Longrightarrow> \<not> fst c' < cutoff \<Longrightarrow>
   prune cutoff (xs @ [c']) = [c']"
  by (induction xs) auto

lemma prune_append_stale:
  assumes "\<forall>c\<in>set q. fst c < now - 750"
  shows "prune (now - 750) (deque_append q (now, m, a)) = [(now, m, a)]"
proof -
  have "\<forall>c\<in>set (tl q). fst c < now - 750"
    using assms by (cases q) auto
  then show ?thesis
    using assms by (simp add: deque_append_def prune_stale)
qed

lemma debounced_Sim1_first:
  assumes "live \<noteq> ''Sim1''" and "\<forall>c\<in>set q. fst c < t1 - 750"
  shows "should_switch_mode_debounced live q t1 ''Sim1'' (Some LIVE) None
     = (False, [(t1, SIM, ''Sim1'')])"
  using assms(1) prune_append_stale[OF assms(2)]
  by (simp add: should_switch_mode_debounced_def detect_Sim1 should_switch_mode_def
      strip_def isspace_def DEBOUNCE_WINDOW_MS_def REQUIRED_CONSECUTIVE_def)

lemma debounced_Sim1_second:
  "live \<noteq> ''Sim1'' \<Longrightarrow> t2 - t1 \<le> 750 \<Longrightarrow>
   should_switch_mode_debounced live [(t1, SIM, ''Sim1'')] t2 ''Sim1'' (Some LIVE) None
     = (True, [])"
  by (simp add: should_switch_mode_debounced_def detect_Sim1 should_switch_mode_def
      strip_def isspace_def deque_append_def QUEUE_MAXLEN_def DEBOUNCE_WINDOW_MS_def
      REQUIRED_CONSECUTIVE_def last_n_def)

lemma debounced_late:
  "750 < t3 - t1 \<Longrightarrow>
   \<not> fst (should_switch_mode_debounced live [(t1, m, a)] t3 account cur qty)"
  by (simp add: should_switch_mode_debounced_def Let_def deque_append_def QUEUE_MAXLEN_def
      DEBOUNCE_WINDOW_MS_def REQUIRED_CONSECUTIVE_def last_n_def)

text \<open>
  Claim C3. A call of \<^verbatim>\<open>should_switch_mode_debounced\<close> returns True exactly when
  the account is eligible, its mode differs from the current mode and, after the new
  candidate is appended and the entries older than 750 ms are pruned, the queue holds at
  least two entries of which the last two agree on mode and account; a call that returns
  True leaves the queue empty. With a LIVE account other than \<open>Sim1\<close>, two calls for
  \<open>Sim1\<close> under current mode LIVE that lie within 750 ms, the first of them made when
  the queue is empty or holds only entries older than the window, return False and then
  True. A call more than 750 ms after the single proposal in the queue returns False.
\<close>

theorem should_switch_mode_debounced_window:
  "(fst (should_switch_mode_debounced live q now account cur qty) \<longleftrightarrow>
      should_switch_mode account qty True
      \<and> cur \<noteq> Some (detect_mode_from_account live account)
      \<and> 2 \<le> length (prune (now - 750)
                      (deque_append q (now, detect_mode_from_account live account, account)))
      \<and> (\<exists>c1 c2. last_n 2 (prune (now - 750)
                  (deque_append q (now, detect_mode_from_account live account, account)))
                = [c1, c2]
             \<and> snd c1 = snd c2))
   \<and> (fst (should_switch_mode_debounced live q now account cur qty) \<longrightarrow>
        snd (should_switch_mode_debounced live q now account cur qty) = [])
   \<and> (live \<noteq> ''Sim1'' \<and> (\<forall>c\<in>set q0. fst c < t1 - 750) \<and> t2 - t1 \<le> 750 \<longrightarrow>
        should_switch_mode_debounced live q0 t1 ''Sim1'' (Some LIVE) None
          = (False, [(t1, SIM, ''Sim1'')])
        \<and> should_switch_mode_debounced live [(t1, SIM, ''Sim1'')] t2 ''Sim1'' (Some LIVE) None
          = (True, []))
   \<and> (750 < t3 - t1 \<longrightarrow>
        \<not> fst (should_switch_mode_debounced live [(t1, m, a)] t3 account cur qty))"
proof (intro conjI impI)
  show "fst (should_switch_mode_debounced live q now account cur qty) \<longleftrightarrow>
      should_switch_mode account qty True
      \<and> cur \<noteq> Some (detect_mode_from_account live account)
      \<and> 2 \<le> length (prune (now - 750)
                      (deque_append q (now, detect_mode_from_account live account, account)))
      \<and> (\<exists>c1 c2. last_n 2 (prune (now - 750)
                  (deque_append q (now, detect_mode_from_account live account, account)))
                = [c1, c2]
             \<and> snd c1 = snd c2)"
    by (rule debounced_decision)
next
  assume "fst (should_switch_mode_debounced live q now account cur qty)"
  then show "snd (should_switch_mode_debounced live q now account cur qty) = []"
    by (rule debounced_clears)
next
  assume "live \<noteq> ''Sim1'' \<and> (\<forall>c\<in>set q0. fst c < t1 - 750) \<and> t2 - t1 \<le> 750"
  then show "should_switch_mode_debounced live q0 t1 ''Sim1'' (Some LIVE) None
          = (False, [(t1, SIM, ''Sim1'')])"
    by (simp add: debounced_Sim1_first)
next
  assume "live \<noteq> ''Sim1'' \<and> (\<forall>c\<in>set q0. fst c < t1 - 750) \<and> t2 - t1 \<le> 750"
  then show "should_switch_mode_debounced live [(t1, SIM, ''Sim1'')] t2 ''Sim1'' (Some LIVE) None
          = (True, [])"
    by (simp add: debounced_Sim1_second)
next
  assume "750 < t3 - t1"
  then show "\<not> fst (should_switch_mode_debounced live [(t1, m, a)] t3 account cur qty)"
    by (rule debounced_late)
qed

text \<open>
  The scenario of the specification: LIVE account \<open>120005\<close>, proposals for \<open>Sim1\<close> at
  1000 ms (when the queue holds one entry from 100 ms) and 1500 ms, and a proposal at
  2000 ms that follows the single one at 1000 ms.
\<close>

theorem should_switch_mode_debounced_window_witness:
  "should_switch_mode_debounced ''120005'' [(100, LIVE, ''120005'')] 1000 ''Sim1''
       (Some LIVE) None = (False, [(1000, SIM, ''Sim1'')])
   \<and> should_switch_mode_debounced ''120005'' [(1000, SIM, ''Sim1'')] 1500 ''Sim1''
       (Some LIVE) None = (True, [])
   \<and> \<not> fst (should_switch_mode_debounced ''120005'' [(1000, SIM, ''Sim1'')] 2000 ''Sim1''
             (Some LIVE) None)"
  using should_switch_mode_debounced_window
          [of "''120005''" "[]" 1000 "''Sim1''" "Some LIVE" None "[(100, LIVE, ''120005'')]"
              1000 1500 2000 SIM "''Sim1''"]
  by simp

section \<open>Properties of the router\<close>

lemmas example_defs = example_env_def example_panel_def initial_state_def initial_router_def
  live_order_def sim_order_def phantom_position_def sim_balance_def live_state_def
  live_router_def sim_position_def debug_balance_def

lemmas detect_defs = detect_mode_from_account_def strip_def isspace_def startswith_def

lemmas debounce_defs = should_switch_mode_debounced_def should_switch_mode_def
  deque_append_def QUEUE_MAXLEN_def DEBOUNCE_WINDOW_MS_def REQUIRED_CONSECUTIVE_def last_n_def

subsection \<open>The precedence gate\<close>

lemma gate_live: "check_mode_precedence r LIVE"
  by (simp add: check_mode_precedence_def split: option.splits)

lemma gate_blocked:
  assumes "state r = Some st" and "requested \<noteq> LIVE"
    and "(symbol, p) \<in> set (open_positions st)"
    and "precedence requested < precedence (op_mode p)"
  shows "\<not> check_mode_precedence r requested"
proof -
  have "\<exists>e\<in>set (open_positions st). precedence requested < precedence (op_mode (snd e))"
    using assms(3,4) by (intro bexI[of _ "(symbol, p)"]) simp_all
  then have "is_mode_blocked st requested"
    by (simp add: is_mode_blocked_def list_ex_iff)
  with assms(1,2) show ?thesis
    by (simp add: check_mode_precedence_def)
qed

lemma gate_queue:
  "check_mode_precedence (r\<lparr>mode_candidates := q\<rparr>) m = check_mode_precedence r m"
  by (simp add: check_mode_precedence_def)

lemma order_blocked:
  assumes "o_TradeAccount msg \<noteq> []"
    and "fst (should_switch_mode_debounced (live_account e) (mode_candidates r) now
               (o_TradeAccount msg) (Some (r_current_mode r)) None)"
    and "state r \<noteq> None"
    and "\<not> check_mode_precedence r
             (detect_mode_from_account (live_account e) (o_TradeAccount msg))"
  shows "on_order_signal e now r msg =
           r\<lparr>mode_candidates :=
                snd (should_switch_mode_debounced (live_account e) (mode_candidates r) now
                       (o_TradeAccount msg) (Some (r_current_mode r)) None)\<rparr>"
  using assms by (simp add: on_order_signal_def Let_def gate_queue case_prod_beta)

lemma position_blocked:
  assumes "p_TradeAccount msg \<noteq> []" and "signal_qty msg \<noteq> 0"
    and "fst (should_switch_mode_debounced (live_account e) (mode_candidates r) now
               (p_TradeAccount msg) (Some (r_current_mode r)) (Some (signal_qty msg)))"
    and "state r \<noteq> None"
    and "\<not> check_mode_precedence r
             (detect_mode_from_account (live_account e) (p_TradeAccount msg))"
  shows "on_position_signal e now r msg =
           r\<lparr>mode_candidates :=
                snd (should_switch_mode_debounced (live_account e) (mode_candidates r) now
                       (p_TradeAccount msg) (Some (r_current_mode r))
                       (Some (signal_qty msg)))\<rparr>"
  using assms by (simp add: on_position_signal_def Let_def gate_queue case_prod_beta)

text \<open>
  Claim C2. The precedence gate never rejects LIVE. With a session state present, it rejects
  a mode other than LIVE when the state records an open position under a mode of strictly
  higher precedence. When the debounce has decided for a switch and the gate rejects it,
  the order handler and the position handler return at once: no call to any panel is added,
  and the current mode, the current account and the session state are as before.
\<close>

theorem mode_precedence_gate:
  "check_mode_precedence r LIVE
   \<and> (state r = Some st \<and> requested \<noteq> LIVE \<and> (symbol, p) \<in> set (open_positions st)
        \<and> precedence requested < precedence (op_mode p)
      \<longrightarrow> \<not> check_mode_precedence r requested)
   \<and> (o_TradeAccount omsg \<noteq> []
        \<and> fst (should_switch_mode_debounced (live_account e) (mode_candidates r) now
                 (o_TradeAccount omsg) (Some (r_current_mode r)) None)
        \<and> state r \<noteq> None
        \<and> \<not> check_mode_precedence r
               (detect_mode_from_account (live_account e) (o_TradeAccount omsg))
      \<longrightarrow> events (on_order_signal e now r omsg) = events r
          \<and> r_current_mode (on_order_signal e now r omsg) = r_current_mode r
          \<and> r_current_account (on_order_signal e now r omsg) = r_current_account r
          \<and> state (on_order_signal e now r omsg) = state r)
   \<and> (p_TradeAccount pmsg \<noteq> [] \<and> signal_qty pmsg \<noteq> 0
        \<and> fst (should_switch_mode_debounced (live_account e) (mode_candidates r) now
                 (p_TradeAccount pmsg) (Some (r_current_mode r)) (Some (signal_qty pmsg)))
        \<and> state r \<noteq> None
        \<and> \<not> check_mode_precedence r
               (detect_mode_from_account (live_account e) (p_TradeAccount pmsg))
      \<longrightarrow> events (on_position_signal e now r pmsg) = events r
          \<and> r_current_mode (on_position_signal e now r pmsg) = r_current_mode r
          \<and> r_current_account (on_position_signal e now r pmsg) = r_current_account r
          \<and> state (on_position_signal e now r pmsg) = state r)"
proof (intro conjI impI)
  show "check_mode_precedence r LIVE"
    by (rule gate_live)
next
  assume "state r = Some st \<and> requested \<noteq> LIVE \<and> (symbol, p) \<in> set (open_positions st)
        \<and> precedence requested < precedence (op_mode p)"
  then show "\<not> check_mode_precedence r requested"
    using gate_blocked by blast
next
  assume a: "o_TradeAccount omsg \<noteq> []
        \<and> fst (should_switch_mode_debounced (live_account e) (mode_candidates r) now
                 (o_TradeAccount omsg) (Some (r_current_mode r)) None)
        \<and> state r \<noteq> None
        \<and> \<not> check_mode_precedence r
               (detect_mode_from_account (live_account e) (o_TradeAccount omsg))"
  have eq: "on_order_signal e now r omsg =
           r\<lparr>mode_candidates :=
                snd (should_switch_mode_debounced (live_account e) (mode_candidates r) now
                       (o_TradeAccount omsg) (Some (r_current_mode r)) None)\<rparr>"
    using a by (intro order_blocked) simp_all
  show "events (on_order_signal e now r omsg) = events r"
    and "r_current_mode (on_order_signal e now r omsg) = r_current_mode r"
    and "r_current_account (on_order_signal e now r omsg) = r_current_account r"
    and "state (on_order_signal e now r omsg) = state r"
    by (simp_all add: eq)
next
  assume a: "p_TradeAccount pmsg \<noteq> [] \<and> signal_qty pmsg \<noteq> 0
        \<and> fst (should_switch_mode_debounced (live_account e) (mode_candidates r) now
                 (p_TradeAccount pmsg) (Some (r_current_mode r)) (Some (signal_qty pmsg)))
        \<and> state r \<noteq> None
        \<and> \<not> check_mode_precedence r
               (detect_mode_from_account (live_account e) (p_TradeAccount pmsg))"
  have eq: "on_position_signal e now r pmsg =
           r\<lparr>mode_candidates :=
                snd (should_switch_mode_debounced (live_account e) (mode_candidates r) now
                       (p_TradeAccount pmsg) (Some (r_current_mode r))
                       (Some (signal_qty pmsg)))\<rparr>"
    using a by (intro position_blocked) simp_all
  show "events (on_position_signal e now r pmsg) = events r"
    and "r_current_mode (on_position_signal e now r pmsg) = r_current_mode r"
    and "r_current_account (on_position_signal e now r pmsg) = r_current_account r"
    and "state (on_position_signal e now r pmsg) = state r"
    by (simp_all add: eq)
qed

text \<open>
  The gate at work: the router is in LIVE mode with an open LIVE position, and the second
  proposal for \<open>Sim1\<close> within the window arrives as an order, and as a position.
\<close>

theorem mode_precedence_gate_witness:
  "check_mode_precedence live_router LIVE
   \<and> \<not> check_mode_precedence live_router SIM
   \<and> events (on_order_signal example_env 1500 live_router sim_order) = []
   \<and> r_current_mode (on_order_signal example_env 1500 live_router sim_order) = LIVE
   \<and> r_current_account (on_order_signal example_env 1500 live_router sim_order) = ''120005''
   \<and> state (on_order_signal example_env 1500 live_router sim_order) = Some live_state
   \<and> events (on_position_signal example_env 1500 live_router sim_position) = []
   \<and> r_current_mode (on_position_signal example_env 1500 live_router sim_position) = LIVE
   \<and> r_current_account (on_position_signal example_env 1500 live_router sim_position)
       = ''120005''
   \<and> state (on_position_signal example_env 1500 live_router sim_position) = Some live_state"
proof -
  have d: "detect_mode_from_account ''120005'' ''Sim1'' = SIM"
    by (simp add: detect_defs)
  have sw: "should_switch_mode_debounced ''120005'' [(1000, SIM, ''Sim1'')] 1500 ''Sim1''
              (Some LIVE) q = (True, [])" if "q = None \<or> q = Some 2" for q
    using that by (auto simp add: debounce_defs d strip_def isspace_def)
  have pos: "(''F.US.MESM25'', \<lparr>op_qty = 2, op_avg = Some 6001.25, op_mode = LIVE\<rparr>)
               \<in> set (open_positions live_state)"
    by (simp add: live_state_def)
  have st: "state live_router = Some live_state"
    by (simp add: live_router_def)
  show ?thesis
    using mode_precedence_gate
      [of live_router live_state SIM "''F.US.MESM25''"
          "\<lparr>op_qty = 2, op_avg = Some 6001.25, op_mode = LIVE\<rparr>"
          sim_order example_env 1500 sim_position]
      pos st d sw
    by (simp add: live_router_def example_env_def sim_order_def sim_position_def
        signal_qty_def)
qed

subsection \<open>Orders and the debounce\<close>

lemma detect_live:
  "live \<noteq> [] \<Longrightarrow> strip live = live \<Longrightarrow> detect_mode_from_account live live = LIVE"
  by (simp add: detect_mode_from_account_def)

lemma live_first:
  "live \<noteq> [] \<Longrightarrow> strip live = live \<Longrightarrow>
   should_switch_mode_debounced live [] t1 live (Some DEBUG) None
     = (False, [(t1, LIVE, live)])"
  by (simp add: debounce_defs detect_live)

lemma live_second:
  "live \<noteq> [] \<Longrightarrow> strip live = live \<Longrightarrow> t2 - t1 \<le> 750 \<Longrightarrow>
   should_switch_mode_debounced live [(t1, LIVE, live)] t2 live (Some DEBUG) None
     = (True, [])"
  by (simp add: debounce_defs detect_live)

lemma order_first:
  assumes "live_account e \<noteq> []" "strip (live_account e) = live_account e"
    "o_TradeAccount msg = live_account e" "r_current_mode r = DEBUG" "mode_candidates r = []"
  shows "on_order_signal e t1 r msg =
     route_order_to_panels (r\<lparr>mode_candidates := [(t1, LIVE, live_account e)]\<rparr>) msg"
  using assms by (simp add: on_order_signal_def live_first)

lemma order_second:
  assumes "live_account e \<noteq> []" "strip (live_account e) = live_account e"
    "o_TradeAccount msg = live_account e" "r_current_mode r = DEBUG"
    "mode_candidates r = [(t1, LIVE, live_account e)]" "t2 - t1 \<le> 750"
    "\<not> marshal_raises e"
  shows "on_order_signal e t2 r msg =
     route_order_to_panels
       ((emit (r\<lparr>mode_candidates := []\<rparr>) (set_trading_mode_calls r LIVE (live_account e)))
          \<lparr>r_current_mode := LIVE, r_current_account := live_account e\<rparr>) msg"
  using assms
  by (simp add: on_order_signal_def live_second detect_live gate_live commit_mode_switch_def
      set_trading_mode_calls_def Let_def)

text \<open>
  Claim C6, as amended. Orders pass the eligibility check without a quantity, but they do
  not bypass the debounce: when the router is in DEBUG mode with an empty debounce queue, a
  first order for the configured LIVE account leaves the mode at DEBUG and is delivered to
  \<^verbatim>\<open>on_order_update\<close>; a second order for that account within 750 ms commits the
  switch to LIVE, and \<^verbatim>\<open>set_trading_mode("LIVE", account)\<close> is dispatched to every
  registered panel before that order is delivered to \<^verbatim>\<open>on_order_update\<close>. The LIVE
  account is configured without surrounding whitespace and the marshalling does not raise.
\<close>

theorem order_switch_needs_two_signals:
  assumes "live_account e \<noteq> []" and "strip (live_account e) = live_account e"
    and "o_TradeAccount msg = live_account e"
    and "r_current_mode r = DEBUG" and "mode_candidates r = []"
    and "t2 - t1 \<le> 750" and "\<not> marshal_raises e"
  shows "r_current_mode (on_order_signal e t1 r msg) = DEBUG
    \<and> events (on_order_signal e t1 r msg) =
          events r
          @ (if has_hook (panel_live r) has_on_order_update then [OnOrderUpdate msg] else [])
    \<and> r_current_mode (on_order_signal e t2 (on_order_signal e t1 r msg) msg) = LIVE
    \<and> r_current_account (on_order_signal e t2 (on_order_signal e t1 r msg) msg)
        = live_account e
    \<and> events (on_order_signal e t2 (on_order_signal e t1 r msg) msg) =
          events (on_order_signal e t1 r msg)
          @ set_trading_mode_calls r LIVE (live_account e)
          @ (if has_hook (panel_live r) has_on_order_update then [OnOrderUpdate msg] else [])"
proof -
  let ?r1 = "on_order_signal e t1 r msg"
  have r1: "?r1 =
      route_order_to_panels (r\<lparr>mode_candidates := [(t1, LIVE, live_account e)]\<rparr>) msg"
    using assms by (simp add: order_first)
  have m1: "r_current_mode ?r1 = DEBUG" "mode_candidates ?r1 = [(t1, LIVE, live_account e)]"
    using assms(4) by (simp_all add: r1 route_order_to_panels_def emit_def)
  have e1: "events ?r1 =
      events r
      @ (if has_hook (panel_live r) has_on_order_update then [OnOrderUpdate msg] else [])"
    by (simp add: r1 route_order_to_panels_def emit_def)
  have r2: "on_order_signal e t2 ?r1 msg = route_order_to_panels
       ((emit (?r1\<lparr>mode_candidates := []\<rparr>)
            (set_trading_mode_calls ?r1 LIVE (live_account e)))
          \<lparr>r_current_mode := LIVE, r_current_account := live_account e\<rparr>) msg"
    using order_second[OF assms(1,2,3) m1 assms(6,7)] .
  have calls: "set_trading_mode_calls ?r1 LIVE (live_account e)
                 = set_trading_mode_calls r LIVE (live_account e)"
    by (simp add: r1 set_trading_mode_calls_def route_order_to_panels_def emit_def)
  have pl: "panel_live ?r1 = panel_live r"
    by (simp add: r1 route_order_to_panels_def emit_def)
  have m2: "r_current_mode (on_order_signal e t2 ?r1 msg) = LIVE"
    unfolding r2 by (simp add: route_order_to_panels_def emit_def)
  have a2: "r_current_account (on_order_signal e t2 ?r1 msg) = live_account e"
    unfolding r2 by (simp add: route_order_to_panels_def emit_def)
  have e2: "events (on_order_signal e t2 ?r1 msg) =
          events ?r1 @ set_trading_mode_calls r LIVE (live_account e)
          @ (if has_hook (panel_live r) has_on_order_update then [OnOrderUpdate msg] else [])"
    unfolding r2 calls by (simp add: route_order_to_panels_def emit_def pl)
  from m1(1) e1 m2 a2 e2 show ?thesis by blast
qed

text \<open>
  Two orders for account \<open>120005\<close> at 1000 ms and 1500 ms, from the initial router: the
  three mode broadcasts come after the first delivery and before the second.
\<close>

theorem order_switch_needs_two_signals_witness:
  "r_current_mode (on_order_signal example_env 1000 initial_router live_order) = DEBUG
   \<and> r_current_mode (on_order_signal example_env 1500
         (on_order_signal example_env 1000 initial_router live_order) live_order) = LIVE
   \<and> r_current_account (on_order_signal example_env 1500
         (on_order_signal example_env 1000 initial_router live_order) live_order) = ''120005''
   \<and> events (on_order_signal example_env 1500
         (on_order_signal example_env 1000 initial_router live_order) live_order)
       = [OnOrderUpdate live_order,
          SetTradingMode PanelBalance LIVE ''120005'',
          SetTradingMode PanelLive LIVE ''120005'',
          SetTradingMode PanelStats LIVE ''120005'',
          OnOrderUpdate live_order]"
proof -
  have s: "strip ''120005'' = ''120005''"
    by (simp add: strip_def isspace_def)
  show ?thesis
    using order_switch_needs_two_signals
            [of example_env live_order initial_router 1500 1000] s
    by (simp add: example_env_def live_order_def initial_router_def example_panel_def
        has_hook_def set_trading_mode_calls_def)
qed

text \<open>
  Claim C6 as stated fails: a single order for the configured LIVE account, arriving at the
  initial router (mode DEBUG, empty queue), leaves the mode at DEBUG; the order is delivered
  and no \<^verbatim>\<open>set_trading_mode\<close> call is made.
\<close>

theorem single_live_order_counterexample:
  "detect_mode_from_account (live_account example_env) (o_TradeAccount live_order) = LIVE
   \<and> r_current_mode initial_router = DEBUG
   \<and> r_current_mode (on_order_signal example_env 1000 initial_router live_order) = DEBUG
   \<and> events (on_order_signal example_env 1000 initial_router live_order)
       = [OnOrderUpdate live_order]"
  by (simp add: on_order_signal_def example_defs detect_defs debounce_defs
      route_order_to_panels_def has_hook_def emit_def Let_def)

subsection \<open>Phantom positions\<close>

text \<open>On the \<^verbatim>\<open>route\<close> path a phantom position changes nothing.\<close>

lemma route_drops_phantom:
  "p_qty payload = Some q \<Longrightarrow> is_phantom (p_symbol payload) q (p_avg_entry payload) \<Longrightarrow>
   route e r (POSITION_UPDATE payload) = r"
  by (auto simp add: on_position_update_def is_phantom_def PHANTOM_POSITIONS_def Let_def
      split: if_splits)

text \<open>
  Claim C7 fails on the signal path: \<^verbatim>\<open>_on_position_signal\<close> has no phantom
  filter. The position \<open>F.US.MESM25\<close> with quantity 1 at 5996.5 matches the phantom table,
  and the signal handler delivers it to \<^verbatim>\<open>on_position_update\<close> of the live panel.
\<close>

theorem position_signal_delivers_phantom:
  "is_phantom (p_symbol phantom_position) (signal_qty phantom_position)
      (p_avg_entry phantom_position)
   \<and> events (on_position_signal example_env 1000 initial_router phantom_position)
       = [OnPositionUpdate phantom_position]
   \<and> route example_env initial_router (POSITION_UPDATE phantom_position) = initial_router"
  by (simp add: on_position_signal_def on_position_update_def example_defs signal_qty_def
      route_position_to_panels_def has_hook_def emit_def is_phantom_def
      PHANTOM_POSITIONS_def Let_def)

subsection \<open>Orders on the \<^verbatim>\<open>route\<close> path\<close>

text \<open>
  Claim C10. On \<^verbatim>\<open>route\<close>, an \<^verbatim>\<open>ORDER_UPDATE\<close> with a non-empty account
  whose detected mode differs from the current mode of the session state sets that current
  mode to the detected mode, whatever the debounce queue and the open positions are; the
  debounce queue is not touched.
\<close>

theorem route_order_update_sets_mode:
  assumes "state r = Some st" and "o_TradeAccount payload \<noteq> []"
    and "detect_mode_from_account (live_account e) (o_TradeAccount payload) \<noteq> current_mode st"
  shows "state (route e r (ORDER_UPDATE payload)) =
           Some (st\<lparr>current_mode :=
                      detect_mode_from_account (live_account e) (o_TradeAccount payload)\<rparr>)
         \<and> mode_candidates (route e r (ORDER_UPDATE payload)) = mode_candidates r"
  using assms by (simp add: on_order_update_def Let_def emit_def)

text \<open>
  A single LIVE order at the initial router switches the state to LIVE with the queue still
  empty; a \<open>Sim1\<close> order switches the state to SIM although a LIVE position is open and
  the precedence gate would reject SIM.
\<close>

theorem route_order_update_sets_mode_witness:
  "state (route example_env initial_router (ORDER_UPDATE live_order))
     = Some (initial_state\<lparr>current_mode := LIVE\<rparr>)
   \<and> mode_candidates (route example_env initial_router (ORDER_UPDATE live_order)) = []
   \<and> state (route example_env live_router (ORDER_UPDATE sim_order))
       = Some (live_state\<lparr>current_mode := SIM\<rparr>)
   \<and> \<not> check_mode_precedence live_router SIM"
proof -
  have d1: "detect_mode_from_account ''120005'' ''120005'' = LIVE"
    and d2: "detect_mode_from_account ''120005'' ''Sim1'' = SIM"
    by (simp_all add: detect_defs)
  have g: "\<not> check_mode_precedence live_router SIM"
    by (simp add: check_mode_precedence_def is_mode_blocked_def live_router_def
        live_state_def)
  show ?thesis
    using route_order_update_sets_mode
            [of initial_router initial_state live_order example_env]
      route_order_update_sets_mode [of live_router live_state sim_order example_env]
      d1 d2 g
    by (simp add: example_env_def live_order_def sim_order_def initial_router_def
        live_router_def initial_state_def live_state_def)
qed

subsection \<open>Balance isolation\<close>

lemma signal_stale:
  assumes "balance_account msg \<noteq> []" "signal_balance_value msg = Some v"
    "state r = Some st"
    "detect_mode_from_account (live_account e) (balance_account msg) \<noteq> current_mode st"
  shows "events (on_balance_signal e r msg) = events r"
    and "detect_mode_from_account (live_account e) (balance_account msg) \<noteq> SIM \<Longrightarrow>
         state (on_balance_signal e r msg) =
           Some (set_balance_for_mode st
                   (detect_mode_from_account (live_account e) (balance_account msg)) v)"
    and "detect_mode_from_account (live_account e) (balance_account msg) = SIM \<Longrightarrow>
         on_balance_signal e r msg = r"
  using assms
  by (auto simp add: on_balance_signal_def Let_def set_balance_for_mode_def
      split: option.splits)

lemma route_stale:
  assumes "balance_account msg \<noteq> []" "b_balance msg = Some v" "state r = Some st"
    "detect_mode_from_account (live_account e) (balance_account msg) \<noteq> current_mode st"
  shows "events (route e r (BALANCE_UPDATE msg)) = events r"
    and "state (route e r (BALANCE_UPDATE msg)) =
           Some (set_balance_for_mode (update_balance st (Some v))
                   (detect_mode_from_account (live_account e) (balance_account msg)) v)"
  using assms
  by (auto simp add: on_balance_update_def Let_def set_balance_for_mode_def
      update_balance_def split: option.splits)

lemma signal_hook_only_current:
  assumes "events (on_balance_signal e r msg) \<noteq> events r" "balance_account msg \<noteq> []"
  shows "\<exists>st. state r = Some st \<and>
           detect_mode_from_account (live_account e) (balance_account msg) = current_mode st"
  using assms
  by (auto simp add: on_balance_signal_def Let_def update_balance_ui_def emit_def
      set_balance_for_mode_def split: option.splits if_splits)

lemma route_hook_only_current:
  assumes "events (route e r (BALANCE_UPDATE msg)) \<noteq> events r" "balance_account msg \<noteq> []"
  shows "\<exists>st. state r = Some st \<and>
           detect_mode_from_account (live_account e) (balance_account msg) = current_mode st"
  using assms
  by (auto simp add: on_balance_update_def Let_def emit_def set_balance_for_mode_def
      update_balance_def split: option.splits if_splits)

lemma set_balance_slot: "mode_balances (set_balance_for_mode st m v) m = Some v"
  by (simp add: set_balance_for_mode_def)

text \<open>
  Claim C1, as amended. Let a balance update carry a non-empty account whose detected mode
  \<open>m\<close> differs from the current mode of the session state. Then no call to any panel is
  made, on either path. On the signal path the slot of \<open>m\<close> in the per-mode balance map
  is set to the reported value when \<open>m\<close> is not SIM, and the whole update is skipped,
  the router left as it was, when \<open>m\<close> is SIM. On the \<^verbatim>\<open>route\<close> path the slot of
  \<open>m\<close> is set to the reported value. On both paths a call to a panel is made only when
  the session state exists and the detected mode equals its current mode.
\<close>

theorem balance_isolation:
  "(balance_account msg \<noteq> [] \<and> state r = Some st
      \<and> detect_mode_from_account (live_account e) (balance_account msg) \<noteq> current_mode st
    \<longrightarrow>
      (signal_balance_value msg = Some v \<longrightarrow>
         events (on_balance_signal e r msg) = events r
         \<and> (detect_mode_from_account (live_account e) (balance_account msg) \<noteq> SIM \<longrightarrow>
              (\<exists>st'. state (on_balance_signal e r msg) = Some st'
                 \<and> mode_balances st'
                      (detect_mode_from_account (live_account e) (balance_account msg))
                    = Some v))
         \<and> (detect_mode_from_account (live_account e) (balance_account msg) = SIM \<longrightarrow>
              on_balance_signal e r msg = r))
      \<and> (b_balance msg = Some v \<longrightarrow>
           events (route e r (BALANCE_UPDATE msg)) = events r
           \<and> (\<exists>st'. state (route e r (BALANCE_UPDATE msg)) = Some st'
                 \<and> mode_balances st'
                      (detect_mode_from_account (live_account e) (balance_account msg))
                    = Some v)))
   \<and> (balance_account msg \<noteq> [] \<and> events (on_balance_signal e r msg) \<noteq> events r \<longrightarrow>
        (\<exists>st. state r = Some st
           \<and> detect_mode_from_account (live_account e) (balance_account msg)
               = current_mode st))
   \<and> (balance_account msg \<noteq> [] \<and> events (route e r (BALANCE_UPDATE msg)) \<noteq> events r \<longrightarrow>
        (\<exists>st. state r = Some st
           \<and> detect_mode_from_account (live_account e) (balance_account msg)
               = current_mode st))"
proof (intro conjI impI)
  assume a: "balance_account msg \<noteq> [] \<and> state r = Some st
      \<and> detect_mode_from_account (live_account e) (balance_account msg) \<noteq> current_mode st"
    and v: "signal_balance_value msg = Some v"
  from a v show "events (on_balance_signal e r msg) = events r"
    by (intro signal_stale(1)[of msg v r st e]) simp_all
  {
    assume "detect_mode_from_account (live_account e) (balance_account msg) \<noteq> SIM"
    with a v have "state (on_balance_signal e r msg) =
           Some (set_balance_for_mode st
                   (detect_mode_from_account (live_account e) (balance_account msg)) v)"
      by (intro signal_stale(2)) simp_all
    then show "\<exists>st'. state (on_balance_signal e r msg) = Some st'
                 \<and> mode_balances st'
                      (detect_mode_from_account (live_account e) (balance_account msg))
                    = Some v"
      by (simp add: set_balance_slot)
  }
  {
    assume "detect_mode_from_account (live_account e) (balance_account msg) = SIM"
    with a v show "on_balance_signal e r msg = r"
      by (intro signal_stale(3)[of msg v r st e]) simp_all
  }
next
  assume a: "balance_account msg \<noteq> [] \<and> state r = Some st
      \<and> detect_mode_from_account (live_account e) (balance_account msg) \<noteq> current_mode st"
    and v: "b_balance msg = Some v"
  from a v show "events (route e r (BALANCE_UPDATE msg)) = events r"
    by (intro route_stale(1)[of msg v r st e]) simp_all
  from a v have "state (route e r (BALANCE_UPDATE msg)) =
           Some (set_balance_for_mode (update_balance st (Some v))
                   (detect_mode_from_account (live_account e) (balance_account msg)) v)"
    by (intro route_stale(2)) simp_all
  then show "\<exists>st'. state (route e r (BALANCE_UPDATE msg)) = Some st'
                 \<and> mode_balances st'
                      (detect_mode_from_account (live_account e) (balance_account msg))
                    = Some v"
    by (simp add: set_balance_slot)
next
  assume "balance_account msg \<noteq> [] \<and> events (on_balance_signal e r msg) \<noteq> events r"
  then show "\<exists>st. state r = Some st
           \<and> detect_mode_from_account (live_account e) (balance_account msg)
               = current_mode st"
    using signal_hook_only_current by blast
next
  assume "balance_account msg \<noteq> [] \<and> events (route e r (BALANCE_UPDATE msg)) \<noteq> events r"
  then show "\<exists>st. state r = Some st
           \<and> detect_mode_from_account (live_account e) (balance_account msg)
               = current_mode st"
    using route_hook_only_current by blast
qed

text \<open>
  While the state is in LIVE mode: a balance for the unknown account \<open>Unknown123\<close> (mode
  DEBUG) on the signal path, and a balance for \<open>Sim1\<close> on the \<^verbatim>\<open>route\<close> path.
  Both are stored in their slot and neither reaches a panel.
\<close>

theorem balance_isolation_witness:
  "events (on_balance_signal example_env live_router debug_balance) = []
   \<and> (\<exists>st'. state (on_balance_signal example_env live_router debug_balance) = Some st'
         \<and> mode_balances st' DEBUG = Some 5000)
   \<and> events (route example_env live_router (BALANCE_UPDATE sim_balance)) = []
   \<and> (\<exists>st'. state (route example_env live_router (BALANCE_UPDATE sim_balance)) = Some st'
         \<and> mode_balances st' SIM = Some 5000)"
proof -
  have d: "detect_mode_from_account ''120005'' ''Unknown123'' = DEBUG"
    "detect_mode_from_account ''120005'' ''Sim1'' = SIM"
    by (simp_all add: detect_defs)
  have b: "balance_account debug_balance = ''Unknown123''"
    "balance_account sim_balance = ''Sim1''"
    "signal_balance_value debug_balance = Some 5000"
    "b_balance sim_balance = Some 5000"
    by (simp_all add: balance_account_def signal_balance_value_def str_or_def py_or_def
        truthy_def debug_balance_def sim_balance_def)
  have s: "state live_router = Some live_state" "current_mode live_state = LIVE"
    "events live_router = []" "live_account example_env = ''120005''"
    by (simp_all add: live_router_def live_state_def example_env_def)
  show ?thesis
    using balance_isolation [of debug_balance live_router live_state example_env 5000]
      balance_isolation [of sim_balance live_router live_state example_env 5000]
    by (simp add: d b s)
qed

text \<open>
  Claim C1 as stated fails on the signal path: with the state in LIVE mode, a balance of
  5000 for \<open>Sim1\<close> (mode SIM) leaves the router, and with it the SIM slot of the per-mode
  balance map, unchanged.
\<close>

theorem sim_balance_signal_counterexample:
  "detect_mode_from_account (live_account example_env) (balance_account sim_balance) = SIM
   \<and> signal_balance_value sim_balance = Some 5000
   \<and> state live_router = Some live_state
   \<and> current_mode live_state = LIVE
   \<and> mode_balances live_state SIM = None
   \<and> on_balance_signal example_env live_router sim_balance = live_router"
  by (simp add: on_balance_signal_def example_defs detect_defs balance_account_def
      signal_balance_value_def py_or_def truthy_def str_or_def Let_def)

section \<open>Properties of the transport\<close>

subsection \<open>Framing\<close>

declare drain.simps [simp del] frames_of.simps [simp del] residue.simps [simp del]

lemma index_of_None_iff: "index_of buf = None \<longleftrightarrow> NULL \<notin> set buf"
  by (induction buf) (auto split: option.splits)

lemma index_of_append_Some:
  "index_of a = Some i \<Longrightarrow> index_of (a @ b) = Some i"
  by (induction a arbitrary: i) (auto split: option.splits if_splits)

lemma index_of_seg: "NULL \<notin> set seg \<Longrightarrow> index_of (seg @ NULL # rest) = Some (length seg)"
  by (induction seg) auto

lemma frames_of_clean: "NULL \<notin> set buf \<Longrightarrow> frames_of buf = []"
  by (subst frames_of.simps) (simp add: index_of_None_iff[symmetric])

lemma residue_clean: "NULL \<notin> set buf \<Longrightarrow> residue buf = buf"
  by (subst residue.simps) (simp add: index_of_None_iff[symmetric])

lemma frames_of_seg:
  "NULL \<notin> set seg \<Longrightarrow> frames_of (seg @ NULL # rest) = seg # frames_of rest"
  by (subst frames_of.simps) (simp add: index_of_seg)

lemma residue_seg:
  "NULL \<notin> set seg \<Longrightarrow> residue (seg @ NULL # rest) = residue rest"
  by (subst residue.simps) (simp add: index_of_seg)

lemma frames_of_terminated:
  "\<forall>seg\<in>set segs. NULL \<notin> set seg \<Longrightarrow> NULL \<notin> set rest \<Longrightarrow>
   frames_of (terminated segs @ rest) = segs"
  by (induction segs) (simp_all add: terminated_def frames_of_clean frames_of_seg)

lemma residue_terminated:
  "\<forall>seg\<in>set segs. NULL \<notin> set seg \<Longrightarrow> NULL \<notin> set rest \<Longrightarrow>
   residue (terminated segs @ rest) = rest"
  by (induction segs) (simp_all add: terminated_def residue_clean residue_seg)

lemma residue_no_NULL: "NULL \<notin> set (residue buf)"
proof (induction buf rule: residue.induct)
  case (1 buf)
  show ?case
  proof (cases "index_of buf")
    case None
    then have "NULL \<notin> set buf" by (simp add: index_of_None_iff)
    then show ?thesis by (simp add: residue_clean)
  next
    case (Some i)
    with 1 show ?thesis by (subst residue.simps) simp
  qed
qed

lemma frames_of_append:
  "frames_of (a @ b) = frames_of a @ frames_of (residue a @ b)"
proof (induction a rule: frames_of.induct)
  case (1 a)
  show ?case
  proof (cases "index_of a")
    case None
    then show ?thesis by (simp add: frames_of_clean residue_clean index_of_None_iff)
  next
    case (Some i)
    then have i: "i < length a" by (rule index_of_less)
    have ia: "index_of (a @ b) = Some i" using Some by (rule index_of_append_Some)
    have f1: "frames_of (a @ b) = take i a # frames_of (drop (Suc i) a @ b)"
      using i ia by (subst frames_of.simps) simp
    have f2: "frames_of (drop (Suc i) a @ b)
        = frames_of (drop (Suc i) a) @ frames_of (residue (drop (Suc i) a) @ b)"
      using 1 Some by simp
    have f3: "residue (drop (Suc i) a) = residue a"
      using Some by (subst (2) residue.simps) simp
    have f4: "frames_of a = take i a # frames_of (drop (Suc i) a)"
      using Some by (subst frames_of.simps) simp
    show ?thesis
      unfolding f1 f2 f3 f4 by simp
  qed
qed

lemma residue_append: "residue (a @ b) = residue (residue a @ b)"
proof (induction a rule: residue.induct)
  case (1 a)
  show ?case
  proof (cases "index_of a")
    case None
    then show ?thesis by (simp add: residue_clean index_of_None_iff)
  next
    case (Some i)
    then have i: "i < length a" by (rule index_of_less)
    have ia: "index_of (a @ b) = Some i" using Some by (rule index_of_append_Some)
    have "residue (a @ b) = residue (drop (Suc i) a @ b)"
      using i ia by (subst residue.simps) simp
    also have "\<dots> = residue (residue (drop (Suc i) a) @ b)"
      using 1 Some by simp
    also have "residue (drop (Suc i) a) = residue a"
      using Some by (subst (2) residue.simps) simp
    finally show ?thesis .
  qed
qed

subsection \<open>The receive loop\<close>

lemma dispatched_append: "dispatched (es @ es') = dispatched es @ dispatched es'"
  by (induction es rule: dispatched.induct) simp_all

lemma handle_frame_ok:
  assumes "decodes_to_dict s raw"
  shows "fst (handle_frame s raw es) = None"
    and "dispatched (snd (handle_frame s raw es)) = dispatched es @ decoded s [raw]"
  using assms
  by (auto simp add: handle_frame_def decodes_to_dict_def Let_def dispatched_append
      split: option.splits)

lemma drain_ok:
  assumes "list_all (decodes_to_dict s) (frames_of buf)"
  shows "fst (drain s buf es) = None
       \<and> fst (snd (drain s buf es)) = residue buf
       \<and> dispatched (snd (snd (drain s buf es))) = dispatched es @ decoded s (frames_of buf)"
  using assms
proof (induction s buf es rule: drain.induct)
  case (1 s buf es)
  show ?case
  proof (cases "index_of buf")
    case None
    then have n: "NULL \<notin> set buf" by (simp add: index_of_None_iff)
    show ?thesis
      using None by (subst (1 2 3) drain.simps) (simp add: frames_of_clean residue_clean n)
  next
    case (Some i)
    have fr: "frames_of buf = take i buf # frames_of (drop (Suc i) buf)"
      using Some by (subst frames_of.simps) simp
    have re: "residue buf = residue (drop (Suc i) buf)"
      using Some by (subst residue.simps) simp
    from "1.prems" fr have ok1: "decodes_to_dict s (take i buf)"
      and ok2: "list_all (decodes_to_dict s) (frames_of (drop (Suc i) buf))"
      by simp_all
    obtain es' where hf: "handle_frame s (take i buf) es = (None, es')"
      using handle_frame_ok(1)[OF ok1, of es] by (cases "handle_frame s (take i buf) es") auto
    have d1: "dispatched es' = dispatched es @ decoded s [take i buf]"
      using handle_frame_ok(2)[OF ok1, of es] hf by simp
    have dr: "drain s buf es = drain s (drop (Suc i) buf) es'"
      using Some hf by (subst drain.simps) simp
    have ih: "fst (drain s (drop (Suc i) buf) es') = None
       \<and> fst (snd (drain s (drop (Suc i) buf) es')) = residue (drop (Suc i) buf)
       \<and> dispatched (snd (snd (drain s (drop (Suc i) buf) es')))
           = dispatched es' @ decoded s (frames_of (drop (Suc i) buf))"
      using "1.IH" Some hf ok2 by auto
    have dec: "decoded s (frames_of buf)
        = decoded s [take i buf] @ decoded s (frames_of (drop (Suc i) buf))"
      unfolding fr by (simp split: option.splits)
    show ?thesis
      unfolding dr re dec using ih d1 by simp
  qed
qed

lemma rx_loop_ok:
  assumes "sock c \<noteq> None" and "\<not> stop c" and "NULL \<notin> set (rx_buf c)"
    and "list_all delivers rs"
    and "list_all (decodes_to_dict s) (frames_of (rx_buf c @ stream_of rs))"
  shows "fst (rx_loop s c rs) = Running
       \<and> rx_buf (snd (rx_loop s c rs)) = residue (rx_buf c @ stream_of rs)
       \<and> dispatched (effects (snd (rx_loop s c rs)))
           = dispatched (effects c) @ decoded s (frames_of (rx_buf c @ stream_of rs))"
  using assms
proof (induction rs arbitrary: c)
  case Nil
  then show ?case by (simp add: stream_of_def frames_of_clean residue_clean)
next
  case (Cons r rs)
  show ?case
  proof (cases r)
    case Timeout
    with Cons show ?thesis by (simp add: stream_of_def)
  next
    case RecvError
    with Cons.prems show ?thesis by simp
  next
    case (Chunk chunk)
    with Cons.prems have ne: "chunk \<noteq> []" by simp
    let ?buf = "rx_buf c @ chunk"
    have st: "rx_buf c @ stream_of (r # rs) = ?buf @ stream_of rs"
      using Chunk by (simp add: stream_of_def)
    have fr: "frames_of (?buf @ stream_of rs)
        = frames_of ?buf @ frames_of (residue ?buf @ stream_of rs)"
      by (rule frames_of_append)
    from Cons.prems(5) have ok1: "list_all (decodes_to_dict s) (frames_of ?buf)"
      and ok2: "list_all (decodes_to_dict s) (frames_of (residue ?buf @ stream_of rs))"
      unfolding st fr by simp_all
    from drain_ok[OF ok1, of "effects c"]
    obtain es where dr: "drain s ?buf (effects c) = (None, residue ?buf, es)"
      and des: "dispatched es = dispatched (effects c) @ decoded s (frames_of ?buf)"
      by (cases "drain s ?buf (effects c)") auto
    let ?c' = "c\<lparr>rx_buf := residue ?buf, effects := es\<rparr>"
    have step: "rx_loop s c (r # rs) = rx_loop s ?c' rs"
      using Chunk ne Cons.prems(1,2) dr by auto
    have ih: "fst (rx_loop s ?c' rs) = Running
       \<and> rx_buf (snd (rx_loop s ?c' rs)) = residue (rx_buf ?c' @ stream_of rs)
       \<and> dispatched (effects (snd (rx_loop s ?c' rs)))
           = dispatched (effects ?c') @ decoded s (frames_of (rx_buf ?c' @ stream_of rs))"
      using Cons.prems(1,2,4) ok2 by (intro Cons.IH) (simp_all add: residue_no_NULL)
    have dec: "decoded s (xs @ ys) = decoded s xs @ decoded s ys" for xs ys
      by (induction xs) (simp_all split: option.splits)
    show ?thesis
      unfolding step st fr dec
      using ih des residue_append[of ?buf "stream_of rs"] by simp
  qed
qed

text \<open>
  Claim C5, as amended. Let the client be connected and not stopped, with an empty buffer,
  and let the results of \<^verbatim>\<open>recv\<close> be non-empty chunks and timeouts whose bytes
  form a sequence of delimiter-terminated segments, none containing the delimiter, followed
  by bytes without delimiter. If every segment that decodes gives a dictionary, then no
  exception leaves the loop, which is still running; the messages dispatched are exactly
  those decoded from the non-empty segments that decode, in order (a segment that fails to
  decode is dropped, and the loop goes on); and the bytes after the last delimiter stay in
  the buffer. The result does not depend on how the stream is cut into chunks.
\<close>

theorem rx_loop_dispatches_decodable_segments:
  assumes "sock c \<noteq> None" and "\<not> stop c" and "rx_buf c = []"
    and "list_all delivers rs"
    and "stream_of rs = terminated segs @ rest"
    and "list_all (\<lambda>seg. NULL \<notin> set seg) segs" and "NULL \<notin> set rest"
    and "list_all (decodes_to_dict s) segs"
  shows "fst (rx_loop s c rs) = Running
       \<and> dispatched (effects (snd (rx_loop s c rs))) = dispatched (effects c) @ decoded s segs
       \<and> rx_buf (snd (rx_loop s c rs)) = rest"
proof -
  have clean: "\<forall>seg\<in>set segs. NULL \<notin> set seg"
    using assms(6) by (simp add: list_all_iff)
  have fr: "frames_of (rx_buf c @ stream_of rs) = segs"
    using assms(3,5,7) clean by (simp add: frames_of_terminated)
  have re: "residue (rx_buf c @ stream_of rs) = rest"
    using assms(3,5,7) clean by (simp add: residue_terminated)
  have "NULL \<notin> set (rx_buf c)"
    using assms(3) by simp
  from rx_loop_ok[OF assms(1,2) this assms(4), of s] assms(8)
  show ?thesis
    unfolding fr re by simp
qed

text \<open>
  Three segments, the middle one garbage, cut into two chunks inside the garbage and
  separated by a timeout; an unterminated brace follows.
\<close>

theorem rx_loop_dispatches_decodable_segments_witness:
  "fst (rx_loop example_settings connected_client
          [Chunk (''{}'' @ [NULL] @ ''x''), Timeout, Chunk ([NULL] @ ''{}'' @ [NULL] @ ''{'')])
     = Running
   \<and> dispatched (effects (snd (rx_loop example_settings connected_client
          [Chunk (''{}'' @ [NULL] @ ''x''), Timeout, Chunk ([NULL] @ ''{}'' @ [NULL] @ ''{'')])))
     = [JObject [], JObject []]
   \<and> rx_buf (snd (rx_loop example_settings connected_client
          [Chunk (''{}'' @ [NULL] @ ''x''), Timeout, Chunk ([NULL] @ ''{}'' @ [NULL] @ ''{'')]))
     = ''{''"
  using rx_loop_dispatches_decodable_segments
          [of connected_client
              "[Chunk (''{}'' @ [NULL] @ ''x''), Timeout, Chunk ([NULL] @ ''{}'' @ [NULL] @ ''{'')]"
              "[''{}'', ''x'', ''{}'']" "''{''" example_settings]
  by (simp add: connected_client_def example_settings_def stream_of_def terminated_def
      decodes_to_dict_def NULL_def)

text \<open>
  Claim C5 as stated fails: garbage that contains no delimiter is not separated from the
  frame that follows it. The stream \<open>x{}\<close> and a delimiter contains the well-formed,
  delimiter-terminated frame \<open>{}\<close> after the garbage byte \<open>x\<close>; the loop extracts
  \<open>x{}\<close>, which does not decode, and dispatches nothing.
\<close>

theorem garbage_before_frame_counterexample:
  "json_loads example_settings ''{}'' = Some (JObject [])
   \<and> NULL \<notin> set ''x''
   \<and> fst (rx_loop example_settings connected_client [Chunk (''x'' @ ''{}'' @ [NULL])]) = Running
   \<and> dispatched (effects (snd (rx_loop example_settings connected_client
                                  [Chunk (''x'' @ ''{}'' @ [NULL])]))) = []"
  by (simp add: connected_client_def example_settings_def NULL_def drain.simps handle_frame_def)

subsection \<open>Sending\<close>

text \<open>
  Claim C8, as amended. \<^verbatim>\<open>_send\<close> never raises and always returns
  \<^verbatim>\<open>None\<close>. Without a connection nothing is written, and the failure is logged
  only when \<^verbatim>\<open>DEBUG_NETWORK\<close> is set; when serialization fails or the socket
  write fails nothing is written and the failure is logged; when the write succeeds the
  serialized message followed by one delimiter byte is written.
\<close>

theorem send_never_reports_failure:
  "fst (send s c obj) = Inr ()
   \<and> (sock c = None \<longrightarrow>
        effects (snd (send s c obj)) =
          effects c @ (if DEBUG_NETWORK s then [LogError ''No socket connection available'']
                       else []))
   \<and> (sock c \<noteq> None \<and> json_dumps s obj = DumpsTypeOrValueError \<longrightarrow>
        effects (snd (send s c obj)) =
          effects c @ [LogError ''JSON serialization failed for DTC message''])
   \<and> (sock c \<noteq> None \<and> json_dumps s obj = Dumped data
        \<and> sendall s (data @ [NULL]) = WriteOSError \<longrightarrow>
        effects (snd (send s c obj)) =
          effects c @ [LogError ''Socket error sending DTC message''])
   \<and> (sock c \<noteq> None \<and> json_dumps s obj = Dumped data
        \<and> sendall s (data @ [NULL]) = WriteOk \<longrightarrow>
        effects (snd (send s c obj)) = effects c @ [Sent (data @ [NULL])])"
  by (auto simp add: send_def send_try_def record_effects_def
      split: dumps_result.splits write_result.splits sum.splits py_exn.splits)

text \<open>
  A send without connection, a send on a socket whose write fails, and a successful send:
  the three calls return the same value.
\<close>

theorem send_never_reports_failure_witness:
  "fst (send example_settings unconnected_client []) = Inr ()
   \<and> effects (snd (send example_settings unconnected_client [])) = []
   \<and> fst (send broken_socket_settings connected_client []) = Inr ()
   \<and> effects (snd (send broken_socket_settings connected_client []))
       = [LogError ''Socket error sending DTC message'']
   \<and> fst (send example_settings connected_client []) = Inr ()
   \<and> effects (snd (send example_settings connected_client [])) = [Sent (''{}'' @ [NULL])]"
  using send_never_reports_failure [of example_settings unconnected_client "[]" "''{}''"]
    send_never_reports_failure [of broken_socket_settings connected_client "[]" "''{}''"]
    send_never_reports_failure [of example_settings connected_client "[]" "''{}''"]
  by (simp add: example_settings_def broken_socket_settings_def connected_client_def
      unconnected_client_def)

text \<open>
  Claim C8 as stated fails: without a connection \<^verbatim>\<open>_send\<close> returns
  \<^verbatim>\<open>None\<close> and leaves the client untouched, and with a failing socket write it
  returns \<^verbatim>\<open>None\<close> as well, the value a successful send returns.
\<close>

theorem send_without_connection_counterexample:
  "sock unconnected_client = None
   \<and> send example_settings unconnected_client [] = (Inr (), unconnected_client)
   \<and> sendall broken_socket_settings (''{}'' @ [NULL]) = WriteOSError
   \<and> fst (send broken_socket_settings connected_client []) = Inr ()
   \<and> fst (send example_settings connected_client []) = Inr ()"
  by (simp add: send_def send_try_def example_settings_def broken_socket_settings_def
      connected_client_def unconnected_client_def record_effects_def)

subsection \<open>Closing\<close>

text \<open>
  Claim C9, as amended. After \<^verbatim>\<open>close()\<close> the client has no socket and its
  stop flag is set, and a second \<^verbatim>\<open>close()\<close> leaves socket, stop flag and
  buffer as they are: the socket is closed once if there was a connection, and not at all
  otherwise, whether \<^verbatim>\<open>close()\<close> is called once or twice. The second call
  closes the diagnostic logger and invokes the disconnect callback again, when they are set.
\<close>

theorem close_twice:
  "sock (close (close c)) = sock (close c)
   \<and> stop (close (close c)) = stop (close c)
   \<and> rx_buf (close (close c)) = rx_buf (close c)
   \<and> sock (close c) = None
   \<and> stop (close c)
   \<and> count_list (effects (close (close c))) SockClose
       = count_list (effects c) SockClose + (if sock c \<noteq> None then 1 else 0)
   \<and> count_list (effects (close c)) SockClose
       = count_list (effects c) SockClose + (if sock c \<noteq> None then 1 else 0)
   \<and> effects (close (close c))
       = effects (close c)
         @ (if diagnostic_logger c then [LoggerClose] else [])
         @ (if on_disconnected c then [OnDisconnected] else [])"
  by (simp add: close_def record_effects_def Let_def)

text \<open>
  Claim C9 as stated fails: with a disconnect callback set, two calls of
  \<^verbatim>\<open>close()\<close> invoke the callback twice, so the effects differ from those of
  one call.
\<close>

theorem close_twice_counterexample:
  "count_list (effects (close connected_client)) OnDisconnected = 1
   \<and> count_list (effects (close (close connected_client))) OnDisconnected = 2
   \<and> close (close connected_client) \<noteq> close connected_client"
  by (simp add: close_def record_effects_def Let_def connected_client_def)

end
